theory Spec2Isabelle
  imports
    Complex_Main
    "HOL-Library.Multiset"
    "HOL-Library.Char_ord"
    "HOL-Library.List_Lexorder"
    "HOL-Library.Product_Lexorder"
begin

section \<open>Errors\<close>

text \<open>
  The exceptions the two functions of \<^verbatim>\<open>demo_module.py\<close> can raise, by their Python class:
  \<^verbatim>\<open>IndexError\<close> (an integer position outside an axis), \<^verbatim>\<open>OverflowError\<close> (an integer
  position that the index conversion cannot hold), \<^verbatim>\<open>KeyError\<close> (a label that an index does
  not hold) and \<^verbatim>\<open>ValueError\<close> (lengths or shapes that do not fit, a column or a node name
  that exists already).
\<close>

datatype error = IndexError | OverflowError | KeyError | ValueError

section \<open>The realization extractor\<close>

subsection \<open>Data\<close>

text \<open>
  A cell of an index level of a data frame: an integer, or a string once
  \<^verbatim>\<open>replace\<close> has put one there.
\<close>

datatype label = Num int | Str string

text \<open>
  The dataset \<^verbatim>\<open>ds\<close>: the three-dimensional variable \<^verbatim>\<open>ds["data"]\<close> as its shape
  (sample, analyte, realization) with the element at each position, the attribute
  \<^verbatim>\<open>ds.attrs["analytes"]\<close>, and the two one-dimensional variables \<^verbatim>\<open>ds["control"]\<close> and
  \<^verbatim>\<open>ds["round"]\<close>. Numbers are real numbers: the model computes with the exact values that
  the floating-point cells stand for.
\<close>

record dataset =
  ds_shape :: "nat \<times> nat \<times> nat"
  ds_data :: "nat \<Rightarrow> nat \<Rightarrow> nat \<Rightarrow> real"
  attrs_analytes :: "string list"
  ds_control :: "int list"
  ds_round :: "int list"

text \<open>
  A data frame with a two-level row index: the column names, and the rows in order, each
  with its pair of index labels and its cells. In a frame every row has as many cells as
  there are columns.
\<close>

record table =
  columns :: "string list"
  rows :: "((label \<times> label) \<times> real list) list"

subsection \<open>Operations\<close>

text \<open>
  A Python integer as a position on an axis of length \<open>n\<close>, as numpy and xarray read it: a
  negative position counts from the end, and a position outside \<open>-n \<dots> n - 1\<close> raises
  IndexError. One range is different: an integer from \<open>2^63\<close> to \<open>2^64 - 1\<close> does not fit
  the signed index type but is converted as an unsigned 64-bit number first, and that
  conversion raises OverflowError. (An axis is shorter than \<open>2^63\<close>, so no position
  within an axis is concerned.)
\<close>

definition axis_index :: "nat \<Rightarrow> int \<Rightarrow> error + nat" where
  "axis_index n i =
     (if 0 \<le> i \<and> i < int n then Inr (nat i)
      else if - int n \<le> i \<and> i < 0 then Inr (nat (int n + i))
      else if 2 ^ 63 \<le> i \<and> i < 2 ^ 64 then Inl OverflowError
      else Inl IndexError)"

text \<open>\<^verbatim>\<open>replace({1: "control", 0: "treatment"})\<close> on one cell: any other value stays.\<close>

definition replace_tag :: "int \<Rightarrow> label" where
  "replace_tag t = (if t = 1 then Str ''control'' else if t = 0 then Str ''treatment'' else Num t)"

text \<open>
  The order \<^verbatim>\<open>sort_index\<close> sorts a level by. Strings compare by code point, integers by
  value; where a level mixes both, pandas puts the integers first. The key maps a label
  into a type that carries this order.
\<close>

fun label_key :: "label \<Rightarrow> nat \<times> int \<times> string" where
  "label_key (Num i) = (0, i, [])"
| "label_key (Str s) = (1, 0, s)"

definition index_key :: "label \<times> label \<Rightarrow> (nat \<times> int \<times> string) \<times> (nat \<times> int \<times> string)" where
  "index_key k = (label_key (fst k), label_key (snd k))"

definition sort_index :: "table \<Rightarrow> table" where
  "sort_index df = df\<lparr>rows := sort_key (\<lambda>r. index_key (fst r)) (rows df)\<rparr>"

text \<open>The slice \<^verbatim>\<open>ds["data"][:, :-1, r]\<close>: every sample, every analyte but the last.\<close>

definition slice :: "dataset \<Rightarrow> nat \<Rightarrow> real list list" where
  "slice ds r =
     (case ds_shape ds of (ns, na, nr) \<Rightarrow>
        map (\<lambda>i. map (\<lambda>j. ds_data ds i j r) [0..<na - 1]) [0..<ns])"

text \<open>The rows before sorting: tag (replaced) and round of each sample with its cells.\<close>

definition labelled_rows :: "dataset \<Rightarrow> nat \<Rightarrow> ((label \<times> label) \<times> real list) list" where
  "labelled_rows ds r =
     zip (zip (map replace_tag (ds_control ds)) (map Num (ds_round ds))) (slice ds r)"

text \<open>
  \<^verbatim>\<open>load_realization\<close>, statement by statement. The slice is taken first, so a bad position
  raises before anything else. \<^verbatim>\<open>pd.DataFrame(..., columns=...)\<close> raises ValueError when
  the number of names differs from the width of the slice; \<^verbatim>\<open>insert\<close> raises ValueError
  when the frame has a column of that name already or the inserted values are not as many
  as the rows (\<^verbatim>\<open>control\<close> is inserted first, then \<^verbatim>\<open>round\<close>).
\<close>

definition load_realization :: "dataset \<Rightarrow> int \<Rightarrow> error + table" where
  "load_realization ds realization =
     (case ds_shape ds of (ns, na, nr) \<Rightarrow>
        (case axis_index nr realization of
           Inl e \<Rightarrow> Inl e
         | Inr r \<Rightarrow>
             (let cols = butlast (attrs_analytes ds) in
              if length cols \<noteq> na - 1 then Inl ValueError
              else if ''control'' \<in> set cols \<or> length (ds_control ds) \<noteq> ns then Inl ValueError
              else if ''round'' \<in> set (''control'' # cols) \<or> length (ds_round ds) \<noteq> ns
                then Inl ValueError
              else Inr (sort_index \<lparr>columns = cols, rows = labelled_rows ds r\<rparr>))))"

text \<open>The length of the third axis of \<^verbatim>\<open>ds["data"]\<close>.\<close>

definition n_realizations :: "dataset \<Rightarrow> nat" where
  "n_realizations ds = snd (snd (ds_shape ds))"

text \<open>
  The shape contract of a cube: as many analyte names as the analyte axis is long, one tag
  and one round per sample, and no analyte column that is kept bears the name of one of
  the two inserted columns.
\<close>

definition schema_ok :: "dataset \<Rightarrow> bool" where
  "schema_ok ds =
     (case ds_shape ds of (ns, na, nr) \<Rightarrow>
        length (attrs_analytes ds) = na \<and> length (ds_control ds) = ns \<and>
        length (ds_round ds) = ns \<and>
        ''control'' \<notin> set (butlast (attrs_analytes ds)) \<and>
        ''round'' \<notin> set (butlast (attrs_analytes ds)))"

section \<open>Arrays\<close>

text \<open>
  A numpy array: its shape and its elements in row-major order. An array has as many
  elements as the product of its shape.
\<close>

datatype ndarray = NDArray (shape: "nat list") (flat: "real list")

definition scalar :: "real \<Rightarrow> ndarray" where
  "scalar x = NDArray [] [x]"

definition array :: "real list \<Rightarrow> ndarray" where
  "array xs = NDArray [length xs] xs"

text \<open>
  Broadcasting of two shapes, as numpy does it: the shapes are aligned at their last axis,
  and two lengths fit when they are equal or one of them is 1. The recursion runs over the
  reversed shapes.
\<close>

fun broadcast_rev :: "nat list \<Rightarrow> nat list \<Rightarrow> nat list option" where
  "broadcast_rev [] ys = Some ys"
| "broadcast_rev (x # xs) [] = Some (x # xs)"
| "broadcast_rev (x # xs) (y # ys) =
     (if x = y \<or> y = 1 then map_option ((#) x) (broadcast_rev xs ys)
      else if x = 1 then map_option ((#) y) (broadcast_rev xs ys)
      else None)"

definition broadcast_shapes :: "nat list \<Rightarrow> nat list \<Rightarrow> nat list option" where
  "broadcast_shapes s t = map_option rev (broadcast_rev (rev s) (rev t))"

text \<open>The positions of an array of a given shape, in row-major order.\<close>

fun indices :: "nat list \<Rightarrow> nat list list" where
  "indices [] = [[]]"
| "indices (d # ds) = concat (map (\<lambda>i. map ((#) i) (indices ds)) [0..<d])"

text \<open>The row-major offset of a position in an array of shape \<open>s\<close>.\<close>

definition offset :: "nat list \<Rightarrow> nat list \<Rightarrow> nat" where
  "offset s idx = foldl (\<lambda>acc (d, i). acc * d + i) 0 (zip s idx)"

text \<open>
  The element of \<open>a\<close> that takes part at position \<open>idx\<close> of a broadcast result: the
  leading axes that \<open>a\<close> lacks are dropped, and an axis of length 1 is read at 0.
\<close>

definition element_at :: "ndarray \<Rightarrow> nat list \<Rightarrow> real" where
  "element_at a idx =
     (let s = shape a; own = drop (length idx - length s) idx
      in flat a ! offset s (map (\<lambda>(d, i). if d = 1 then 0 else i) (zip s own)))"

definition elementwise :: "(real \<Rightarrow> real \<Rightarrow> real) \<Rightarrow> ndarray \<Rightarrow> ndarray \<Rightarrow> ndarray option" where
  "elementwise f a b =
     (case broadcast_shapes (shape a) (shape b) of
        None \<Rightarrow> None
      | Some s \<Rightarrow> Some (NDArray s (map (\<lambda>idx. f (element_at a idx) (element_at b idx)) (indices s))))"

text \<open>
  An arithmetic operator of numpy on two arrays, computed while the model is built: shapes
  that do not broadcast raise ValueError.
\<close>

definition np_op :: "(real \<Rightarrow> real \<Rightarrow> real) \<Rightarrow> ndarray \<Rightarrow> ndarray \<Rightarrow> error + ndarray" where
  "np_op f a b = (case elementwise f a b of None \<Rightarrow> Inl ValueError | Some c \<Rightarrow> Inr c)"

text \<open>
  An arithmetic operator of pandas with the result of \<^verbatim>\<open>df.loc[a, b]\<close> on the left and an
  array on the right. The left operand is a Series (one matching row, one dimension) or a
  frame (several matching rows, two dimensions). A Series computes as numpy does and
  raises ValueError unless the result has the shape of the Series. A frame of shape
  \<open>(m, k)\<close> takes a one-dimensional array of length \<open>k\<close>, or a two-dimensional array of
  shape \<open>(m, k)\<close>, \<open>(m, 1)\<close> or \<open>(1, k)\<close>, and raises ValueError on any other; a
  zero-dimensional array is a scalar. \<^verbatim>\<open>df.loc\<close> gives no other left operand; the last case
  only makes the function total.
\<close>

definition pd_op :: "(real \<Rightarrow> real \<Rightarrow> real) \<Rightarrow> ndarray \<Rightarrow> ndarray \<Rightarrow> error + ndarray" where
  "pd_op f left right =
     (case shape left of
        [k] \<Rightarrow>
          (case elementwise f left right of
             Some c \<Rightarrow> if shape c = [k] then Inr c else Inl ValueError
           | None \<Rightarrow> Inl ValueError)
      | [m, k] \<Rightarrow>
          (if (case shape right of
                 [] \<Rightarrow> True
               | [n] \<Rightarrow> n = k
               | [a, b] \<Rightarrow> (a = m \<and> b = k) \<or> (a = m \<and> b = 1) \<or> (a = 1 \<and> b = k)
               | _ \<Rightarrow> False)
           then np_op f left right
           else Inl ValueError)
      | _ \<Rightarrow> Inl ValueError)"

text \<open>Sequencing of computations that may raise.\<close>

definition bind_err :: "error + 'a \<Rightarrow> ('a \<Rightarrow> error + 'b) \<Rightarrow> error + 'b" where
  "bind_err m f = (case m of Inl e \<Rightarrow> Inl e | Inr x \<Rightarrow> f x)"

text \<open>
  \<^verbatim>\<open>df.loc[a, b]\<close> on the two-level index, as the array of its values: KeyError when no
  row bears the pair of labels, the cells of the row as a one-dimensional array (a Series)
  when one row does, and the matching rows as a two-dimensional array (a frame) when
  several do.
\<close>

definition loc :: "table \<Rightarrow> label \<times> label \<Rightarrow> error + ndarray" where
  "loc df key =
     (case filter (\<lambda>r. fst r = key) (rows df) of
        [] \<Rightarrow> Inl KeyError
      | [r] \<Rightarrow> Inr (NDArray [length (snd r)] (snd r))
      | rs \<Rightarrow> Inr (NDArray [length rs, length (columns df)] (concat (map snd rs))))"

section \<open>The model graph\<close>

subsection \<open>Symbolic expressions and nodes\<close>

text \<open>
  A symbolic tensor expression, as the operators of the tensor library build it: a
  constant array, a reference to a named variable of the model (what \<^verbatim>\<open>pm.Normal\<close> or
  \<^verbatim>\<open>pm.Deterministic\<close> returns), the four elementwise operators, and \<^verbatim>\<open>pm.math.sum\<close>.
\<close>

datatype expr =
    Const ndarray
  | Ref string
  | Add expr expr
  | Sub expr expr
  | Mul expr expr
  | Div expr expr
  | Sum expr

text \<open>
  The distribution families the module uses, each with the parameters the source passes:
  \<^verbatim>\<open>Normal(mu, sigma)\<close>, \<^verbatim>\<open>Gamma(mu, sigma)\<close>, \<^verbatim>\<open>Exponential(scale)\<close>,
  \<^verbatim>\<open>HalfNormal(sigma)\<close> and \<^verbatim>\<open>Beta(alpha, beta)\<close>. \<^verbatim>\<open>Uniform\<close> is declared without
  arguments: it carries its default bounds, the numbers 0 and 1.
\<close>

datatype dist =
    Normal expr expr
  | Gamma expr expr
  | Exponential expr
  | HalfNormal expr
  | Uniform real real
  | Beta expr expr

text \<open>
  What a declaration passes to the library: a distribution with its optional
  \<^verbatim>\<open>shape\<close> and \<^verbatim>\<open>observed\<close> arguments, or the expression of a deterministic.
\<close>

datatype decl =
    Distribution dist "nat list option" "ndarray option"
  | Deterministic expr

text \<open>
  A variable of the model: a latent random variable with its shape, a deterministic with
  its expression and shape, or an observed random variable with its data.
\<close>

datatype node =
    Latent dist "nat list"
  | Derived expr "nat list"
  | Observed dist ndarray

text \<open>The model: its named variables in the order of their declaration.\<close>

type_synonym model = "(string \<times> node) list"

fun node_shape :: "node \<Rightarrow> nat list" where
  "node_shape (Latent d s) = s"
| "node_shape (Derived e s) = s"
| "node_shape (Observed d a) = shape a"

fun params :: "dist \<Rightarrow> expr list" where
  "params (Normal mu sigma) = [mu, sigma]"
| "params (Gamma mu sigma) = [mu, sigma]"
| "params (Exponential scale) = [scale]"
| "params (HalfNormal sigma) = [sigma]"
| "params (Uniform lower upper) = []"
| "params (Beta alpha beta) = [alpha, beta]"

subsection \<open>Declaring a variable\<close>

definition broadcast_err :: "error + nat list \<Rightarrow> error + nat list \<Rightarrow> error + nat list" where
  "broadcast_err x y =
     bind_err x (\<lambda>s. bind_err y (\<lambda>t.
       case broadcast_shapes s t of None \<Rightarrow> Inl ValueError | Some u \<Rightarrow> Inr u))"

text \<open>
  The static shape of an expression, which the tensor library computes when an operator
  is applied: operands whose shapes do not broadcast raise ValueError. A reference is
  always to a variable that was declared; the last case for one that was not only makes
  the function total.
\<close>

fun expr_shape :: "model \<Rightarrow> expr \<Rightarrow> error + nat list" where
  "expr_shape g (Const a) = Inr (shape a)"
| "expr_shape g (Ref n) = (case map_of g n of Some v \<Rightarrow> Inr (node_shape v) | None \<Rightarrow> Inl KeyError)"
| "expr_shape g (Add a b) = broadcast_err (expr_shape g a) (expr_shape g b)"
| "expr_shape g (Sub a b) = broadcast_err (expr_shape g a) (expr_shape g b)"
| "expr_shape g (Mul a b) = broadcast_err (expr_shape g a) (expr_shape g b)"
| "expr_shape g (Div a b) = broadcast_err (expr_shape g a) (expr_shape g b)"
| "expr_shape g (Sum a) = bind_err (expr_shape g a) (\<lambda>s. Inr [])"

text \<open>The static shapes of the parameters of a distribution, and their broadcast shape.\<close>

fun shapes_of :: "model \<Rightarrow> expr list \<Rightarrow> error + nat list list" where
  "shapes_of g [] = Inr []"
| "shapes_of g (e # es) =
     bind_err (expr_shape g e) (\<lambda>s. bind_err (shapes_of g es) (\<lambda>ss. Inr (s # ss)))"

fun broadcast_all :: "nat list list \<Rightarrow> error + nat list" where
  "broadcast_all [] = Inr []"
| "broadcast_all (s # ss) = broadcast_err (Inr s) (broadcast_all ss)"

text \<open>A name can be declared once in a model: a second declaration raises ValueError.\<close>

definition add_named_variable :: "model \<Rightarrow> string \<Rightarrow> node \<Rightarrow> error + model" where
  "add_named_variable g name v =
     (if name \<in> set (map fst g) then Inl ValueError else Inr (g @ [(name, v)]))"

text \<open>
  The size of a random variable: the \<^verbatim>\<open>shape\<close> argument when it is given, or else the shape
  of the \<^verbatim>\<open>observed\<close> data when there are data; otherwise none.
\<close>

definition size_of :: "nat list option \<Rightarrow> ndarray option \<Rightarrow> nat list option" where
  "size_of shp obs = (case shp of Some s \<Rightarrow> Some s | None \<Rightarrow> map_option shape obs)"

text \<open>
  A declaration inside the model context. A deterministic has the static shape of its
  expression. A random variable without a size has the broadcast shape of its parameters.
  A random variable with a size takes it as its shape, and the library raises ValueError
  when a parameter has more dimensions than the size: a one-dimensional observed array
  does not fit a parameter of shape (1, 2). Whether the lengths of the parameters fit
  those of the size is not checked when the variable is declared. A random variable with
  \<^verbatim>\<open>observed\<close> is an observation bound to that array, one without is latent.
\<close>

fun register :: "model \<Rightarrow> string \<Rightarrow> decl \<Rightarrow> error + model" where
  "register g name (Deterministic e) =
     bind_err (expr_shape g e) (\<lambda>s. add_named_variable g name (Derived e s))"
| "register g name (Distribution d shp obs) =
     bind_err (shapes_of g (params d)) (\<lambda>ss.
       case size_of shp obs of
         None \<Rightarrow> bind_err (broadcast_all ss) (\<lambda>s. add_named_variable g name (Latent d s))
       | Some sz \<Rightarrow>
           if list_ex (\<lambda>s. length sz < length s) ss then Inl ValueError
           else add_named_variable g name
                  (case obs of Some a \<Rightarrow> Observed d a | None \<Rightarrow> Latent d sz))"

subsection \<open>Running the body of the context\<close>

text \<open>
  What \<^verbatim>\<open>init_model\<close> can act on: the frame \<^verbatim>\<open>df\<close> it is given (a mutable object of the
  caller), the model of the \<^verbatim>\<open>with\<close> block, and the outside world, which is present as the
  list of what has been written to a stream or a file.
\<close>

record state =
  frame :: table
  graph :: model
  io :: "string list"

text \<open>
  A computation of the block: from a state it gives a result or an exception, and the
  state it leaves. The source builds its computations from four: a value, reading a slice
  of the frame, an arithmetic operation on arrays (which may raise) and the declaration of
  a variable; they are sequenced left to right, and an exception ends the sequence in the
  state reached.
\<close>

type_synonym 'a action = "state \<Rightarrow> (error + 'a) \<times> state"

definition result :: "'a \<Rightarrow> 'a action" where
  "result x = (\<lambda>s. (Inr x, s))"

definition then_do :: "'a action \<Rightarrow> ('a \<Rightarrow> 'b action) \<Rightarrow> 'b action" where
  "then_do a f = (\<lambda>s. case a s of (Inl e, s') \<Rightarrow> (Inl e, s') | (Inr x, s') \<Rightarrow> f x s')"

definition df_loc :: "label \<times> label \<Rightarrow> ndarray action" where
  "df_loc key = (\<lambda>s. (loc (frame s) key, s))"

definition computed :: "error + 'a \<Rightarrow> 'a action" where
  "computed r = (\<lambda>s. (r, s))"

definition new_variable :: "string \<Rightarrow> decl \<Rightarrow> unit action" where
  "new_variable name d =
     (\<lambda>s. case register (graph s) name d of
             Inl e \<Rightarrow> (Inl e, s)
           | Inr g \<Rightarrow> (Inr (), s\<lparr>graph := g\<rparr>))"

text \<open>A computation that reads the state and leaves it as it is.\<close>

definition reads_only :: "'a action \<Rightarrow> bool" where
  "reads_only a = (\<forall>s. snd (a s) = s)"

text \<open>
  A statement of the block: the name it declares and the computation of its arguments.
  The arguments are evaluated first, then the variable is declared.
\<close>

type_synonym stmt = "string \<times> decl action"

definition exec :: "stmt \<Rightarrow> unit action" where
  "exec st = then_do (snd st) (new_variable (fst st))"

fun run :: "stmt list \<Rightarrow> unit action" where
  "run [] s = (Inr (), s)"
| "run (st # sts) s =
     (case exec st s of
        (Inl e, s') \<Rightarrow> (Inl e, s')
      | (Inr u, s') \<Rightarrow> run sts s')"

section \<open>The process model builder\<close>

subsection \<open>The variables of the source\<close>

text \<open>
  Each Python variable that holds a declared variable of the model is a reference to it
  by its name.
\<close>

abbreviation wet_feedstock_mass :: expr where
  "wet_feedstock_mass \<equiv> Ref ''wet feedstock mass''"

abbreviation treatment_area :: expr where
  "treatment_area \<equiv> Ref ''treatment area''"

abbreviation sample_depth :: expr where
  "sample_depth \<equiv> Ref ''sample depth''"

abbreviation feedstock_moisture_fraction :: expr where
  "feedstock_moisture_fraction \<equiv> Ref ''feedstock moisture fraction''"

abbreviation dry_feedstock_mass :: expr where
  "dry_feedstock_mass \<equiv> Ref ''dry feedstock mass''"

abbreviation application_rate :: expr where
  "application_rate \<equiv> Ref ''application rate''"

abbreviation feedstock_concentration :: expr where
  "feedstock_concentration \<equiv> Ref ''feedstock concentration''"

abbreviation soil_density :: expr where
  "soil_density \<equiv> Ref ''soil density''"

abbreviation soil_mass :: expr where
  "soil_mass \<equiv> Ref ''soil mass''"

abbreviation mixing_fraction :: expr where
  "mixing_fraction \<equiv> Ref ''mixing fraction''"

abbreviation mixed_concentration :: expr where
  "mixed_concentration \<equiv> Ref ''mixed concentration''"

abbreviation enrichment :: expr where
  "enrichment \<equiv> Ref ''enrichment''"

abbreviation enrichment_sigma :: expr where
  "enrichment_sigma \<equiv> Ref ''enrichment sigma''"

abbreviation control_change :: expr where
  "control_change \<equiv> Ref ''control change''"

abbreviation control_change_sigma :: expr where
  "control_change_sigma \<equiv> Ref ''control change sigma''"

abbreviation norm_loss_mu :: expr where
  "norm_loss_mu \<equiv> Ref ''norm loss mu''"

abbreviation norm_loss_sigma :: expr where
  "norm_loss_sigma \<equiv> Ref ''norm loss sigma''"

abbreviation norm_loss :: expr where
  "norm_loss \<equiv> Ref ''norm loss''"

abbreviation concentration_loss :: expr where
  "concentration_loss \<equiv> Ref ''concentration loss''"

abbreviation weathered_concentration :: expr where
  "weathered_concentration \<equiv> Ref ''weathered concentration''"

abbreviation weathered_sigma :: expr where
  "weathered_sigma \<equiv> Ref ''weathered sigma''"

abbreviation cdrpot :: expr where
  "cdrpot \<equiv> Ref ''CDR potential (per mass)''"

abbreviation cdrpot_area :: expr where
  "cdrpot_area \<equiv> Ref ''CDR potential (per area)''"

abbreviation cdr :: expr where
  "cdr \<equiv> Ref ''CDR (per area)''"

text \<open>A Python number in a symbolic expression, and the literal \<^verbatim>\<open>shape=(1, 2)\<close>.\<close>

abbreviation num :: "real \<Rightarrow> expr" where
  "num x \<equiv> Const (scalar x)"

abbreviation shape_1_2 :: "nat list option" where
  "shape_1_2 \<equiv> Some [1, 2]"

text \<open>The slices of the frame the builder reads, as \<^verbatim>\<open>df.loc[plot, round]\<close>.\<close>

abbreviation treatment :: "int \<Rightarrow> label \<times> label" where
  "treatment r \<equiv> (Str ''treatment'', Num r)"

abbreviation control :: "int \<Rightarrow> label \<times> label" where
  "control r \<equiv> (Str ''control'', Num r)"

subsection \<open>The body of \<^verbatim>\<open>init_model\<close>\<close>

text \<open>
  The statements of the \<^verbatim>\<open>with pm.Model()\<close> block, in the order and under the comments
  of the source. Arguments are evaluated left to right, so in \<^verbatim>\<open>obs enriched\<close> round 2
  is read before round 1, and in \<^verbatim>\<open>obs control\<close> round 3 is read first. All arithmetic on
  the slices is numpy's, except the last subtraction of \<^verbatim>\<open>obs control\<close>: its left operand
  is \<^verbatim>\<open>df.loc["control", 3]\<close> without \<^verbatim>\<open>.values\<close>, so it is pandas'.
\<close>

definition deployment :: "stmt list" where
  "deployment =
    [(''wet feedstock mass'', result (Distribution (Normal (num 12800) (num 100)) None None)),
     (''treatment area'', result (Distribution (Normal (num 3200) (num 32)) None None)),
     (''sample depth'', result (Distribution (Gamma (num 0.1) (num 0.025)) None None)),
     (''feedstock moisture fraction'',
        result (Distribution (Normal (num 0.125) (num 0.025)) None None)),
     (''dry feedstock mass'',
        result (Deterministic (Mul (Sub (num 1) feedstock_moisture_fraction) wet_feedstock_mass))),
     (''application rate'',
        result (Deterministic (Div dry_feedstock_mass treatment_area))),
     (''feedstock concentration'',
        result (Distribution
                    (Normal (Const (array [0.07, 0.05])) (Const (array [0.0035, 0.0025])))
                    None None))]"

definition mixing :: "stmt list" where
  "mixing =
    [(''soil density'', result (Distribution (Normal (num 1000) (num 100)) None None)),
     (''soil mass'', result (Deterministic (Mul soil_density sample_depth))),
     (''mixing fraction'',
        result (Deterministic (Div application_rate (Add application_rate soil_mass)))),
     (''mixed concentration'',
        then_do (df_loc (treatment 1)) (\<lambda>t1.
              result (Deterministic
                    (Add (Mul mixing_fraction feedstock_concentration)
                         (Mul (Sub (num 1) mixing_fraction) (Const t1))))))]"

definition post_spreading_enrichment :: "stmt list" where
  "post_spreading_enrichment =
    [(''enrichment'',
        then_do (df_loc (treatment 1)) (\<lambda>t1.
              result (Deterministic (Sub mixed_concentration (Const t1))))),
     (''enrichment sigma'',
        result (Distribution (Exponential (num 0.001)) shape_1_2 None)),
     (''obs enriched'',
        then_do (df_loc (treatment 2)) (\<lambda>t2.
              then_do (df_loc (treatment 1)) (\<lambda>t1.
              then_do (computed (np_op (-) t2 t1)) (\<lambda>obs.
              result (Distribution (Normal enrichment enrichment_sigma) None (Some obs))))))]"

definition change_in_control :: "stmt list" where
  "change_in_control =
    [(''control change'',
        result (Distribution (Normal (num 0) (num 0.001)) shape_1_2 None)),
     (''control change sigma'',
        result (Distribution (HalfNormal (num 0.001)) shape_1_2 None)),
     (''obs control'',
        then_do (df_loc (control 3)) (\<lambda>c3.
              then_do (df_loc (control 1)) (\<lambda>c1.
              then_do (computed (np_op (/) c1 (scalar 2))) (\<lambda>h1.
              then_do (df_loc (control 2)) (\<lambda>c2.
              then_do (computed (np_op (/) c2 (scalar 2))) (\<lambda>h2.
              then_do (computed (np_op (+) h1 h2)) (\<lambda>mean.
              then_do (computed (pd_op (-) c3 mean)) (\<lambda>obs.
              result (Distribution (Normal control_change control_change_sigma)
                     None (Some obs))))))))))]"

definition observed_concentration_loss :: "stmt list" where
  "observed_concentration_loss =
    [(''norm loss mu'', result (Distribution (Uniform 0 1) None None)),
     (''norm loss sigma'', result (Distribution (Beta (num 1) (num 6)) None None)),
     (''norm loss'',
        result (Distribution (Normal norm_loss_mu norm_loss_sigma) shape_1_2 None)),
     (''concentration loss'', result (Deterministic (Mul norm_loss enrichment))),
     (''weathered concentration'',
        then_do (df_loc (treatment 2)) (\<lambda>t2.
              result (Deterministic (Sub (Const t2) (Sub concentration_loss control_change))))),
     (''weathered sigma'',
        result (Distribution (Exponential (num 0.001)) shape_1_2 None)),
     (''obs weathered'',
        then_do (df_loc (treatment 3)) (\<lambda>t3.
              result (Distribution (Normal weathered_concentration weathered_sigma)
                     None (Some t3))))]"

definition CDR :: "stmt list" where
  "CDR =
    [(''CDR potential (per mass)'',
        result (Deterministic
                    (Sum (Mul feedstock_concentration (Const (array [2.196, 3.621])))))),
     (''CDR potential (per area)'', result (Deterministic (Mul application_rate cdrpot))),
     (''CDR (per area)'',
        result (Deterministic
                    (Mul (Sum (Mul (Mul norm_loss feedstock_concentration)
                                   (Const (array [2.196, 3.621]))))
                         application_rate))),
     (''CDR [metric ton CO2]'',
        result (Deterministic (Div (Mul cdr treatment_area) (num 1000)))),
     (''CDR completion [-]'', result (Deterministic (Div cdr cdrpot_area)))]"

definition body :: "stmt list" where
  "body = deployment @ mixing @ post_spreading_enrichment @ change_in_control
          @ observed_concentration_loss @ CDR"

text \<open>
  \<^verbatim>\<open>init_model\<close>: the block runs on an empty model, with nothing written yet; the model is
  returned when the block ends, and an exception leaves the function with nothing
  returned.
\<close>

definition init_model :: "table \<Rightarrow> error + model" where
  "init_model df =
     (case run body \<lparr>frame = df, graph = [], io = []\<rparr> of
        (Inl e, s) \<Rightarrow> Inl e
      | (Inr u, s) \<Rightarrow> Inr (graph s))"



section \<open>Samples of a model\<close>

text \<open>
  The value of an expression where the variables it refers to have values, first in exact
  arithmetic. Where division would give an infinity or a NaN (a zero divisor) the
  expression has no value. Operands that do not broadcast have none either, which the
  shape check at declaration excludes.
\<close>

fun lift2 :: "(ndarray \<Rightarrow> ndarray \<Rightarrow> ndarray option) \<Rightarrow> ndarray option \<Rightarrow> ndarray option \<Rightarrow> ndarray option" where
  "lift2 f (Some x) (Some y) = f x y"
| "lift2 f None y = None"
| "lift2 f (Some x) None = None"

definition divide_arrays :: "ndarray \<Rightarrow> ndarray \<Rightarrow> ndarray option" where
  "divide_arrays x y = (if 0 \<in> set (flat y) then None else elementwise (/) x y)"

fun eval_expr :: "(string \<rightharpoonup> ndarray) \<Rightarrow> expr \<Rightarrow> ndarray option" where
  "eval_expr env (Const a) = Some a"
| "eval_expr env (Ref n) = env n"
| "eval_expr env (Add a b) = lift2 (elementwise (+)) (eval_expr env a) (eval_expr env b)"
| "eval_expr env (Sub a b) = lift2 (elementwise (-)) (eval_expr env a) (eval_expr env b)"
| "eval_expr env (Mul a b) = lift2 (elementwise (*)) (eval_expr env a) (eval_expr env b)"
| "eval_expr env (Div a b) = lift2 divide_arrays (eval_expr env a) (eval_expr env b)"
| "eval_expr env (Sum a) = map_option (\<lambda>x. scalar (sum_list (flat x))) (eval_expr env a)"

text \<open>The support of each distribution family: the values a draw can take.\<close>

fun in_support :: "dist \<Rightarrow> real \<Rightarrow> bool" where
  "in_support (Normal mu sigma) x = True"
| "in_support (Gamma mu sigma) x = (0 < x)"
| "in_support (Exponential scale) x = (0 \<le> x)"
| "in_support (HalfNormal sigma) x = (0 \<le> x)"
| "in_support (Uniform lower upper) x = (lower \<le> x \<and> x \<le> upper)"
| "in_support (Beta alpha beta) x = (0 < x \<and> x < 1)"

text \<open>
  A sample of a model gives every latent variable an array of its shape with elements in
  the support of its distribution. The values of all variables follow in the order of
  declaration: a latent has its drawn value, a deterministic the value of its expression,
  an observation its data.
\<close>

fun is_draw_of :: "(string \<Rightarrow> ndarray) \<Rightarrow> string \<times> node \<Rightarrow> bool" where
  "is_draw_of \<sigma> (n, Latent d s) =
     (shape (\<sigma> n) = s \<and> length (flat (\<sigma> n)) = prod_list s \<and> list_all (in_support d) (flat (\<sigma> n)))"
| "is_draw_of \<sigma> (n, Derived e s) = True"
| "is_draw_of \<sigma> (n, Observed d a) = True"

definition is_sample :: "model \<Rightarrow> (string \<Rightarrow> ndarray) \<Rightarrow> bool" where
  "is_sample g \<sigma> = list_all (is_draw_of \<sigma>) g"

fun draw_node :: "(string \<Rightarrow> ndarray) \<Rightarrow> (string \<rightharpoonup> ndarray) \<Rightarrow> string \<times> node \<Rightarrow> (string \<rightharpoonup> ndarray)" where
  "draw_node \<sigma> env (n, Latent d s) = env(n \<mapsto> \<sigma> n)"
| "draw_node \<sigma> env (n, Derived e s) = env(n := eval_expr env e)"
| "draw_node \<sigma> env (n, Observed d a) = env(n \<mapsto> a)"

definition draw :: "model \<Rightarrow> (string \<Rightarrow> ndarray) \<Rightarrow> (string \<rightharpoonup> ndarray)" where
  "draw g \<sigma> = foldl (draw_node \<sigma>) Map.empty g"

subsection \<open>Values in floating point\<close>


definition divide_fl :: "(real \<Rightarrow> real) \<Rightarrow> ndarray \<Rightarrow> ndarray \<Rightarrow> ndarray option" where
  "divide_fl rnd x y =
     (if 0 \<in> set (flat y) then None else elementwise (\<lambda>p q. rnd (p / q)) x y)"

fun eval_fl :: "(real \<Rightarrow> real) \<Rightarrow> (string \<rightharpoonup> ndarray) \<Rightarrow> expr \<Rightarrow> ndarray option" where
  "eval_fl rnd env (Const a) = Some a"
| "eval_fl rnd env (Ref n) = env n"
| "eval_fl rnd env (Add a b) =
     lift2 (elementwise (\<lambda>p q. rnd (p + q))) (eval_fl rnd env a) (eval_fl rnd env b)"
| "eval_fl rnd env (Sub a b) =
     lift2 (elementwise (\<lambda>p q. rnd (p - q))) (eval_fl rnd env a) (eval_fl rnd env b)"
| "eval_fl rnd env (Mul a b) =
     lift2 (elementwise (\<lambda>p q. rnd (p * q))) (eval_fl rnd env a) (eval_fl rnd env b)"
| "eval_fl rnd env (Div a b) =
     lift2 (divide_fl rnd) (eval_fl rnd env a) (eval_fl rnd env b)"
| "eval_fl rnd env (Sum a) =
     map_option (\<lambda>x. scalar (foldl (\<lambda>acc v. rnd (acc + v)) 0 (flat x))) (eval_fl rnd env a)"

fun draw_node_fl :: "(real \<Rightarrow> real) \<Rightarrow> (string \<Rightarrow> ndarray) \<Rightarrow> (string \<rightharpoonup> ndarray) \<Rightarrow> string \<times> node \<Rightarrow> (string \<rightharpoonup> ndarray)" where
  "draw_node_fl rnd \<sigma> env (n, Latent d s) = env(n \<mapsto> \<sigma> n)"
| "draw_node_fl rnd \<sigma> env (n, Derived e s) = env(n := eval_fl rnd env e)"
| "draw_node_fl rnd \<sigma> env (n, Observed d a) = env(n \<mapsto> a)"

definition draw_fl :: "(real \<Rightarrow> real) \<Rightarrow> model \<Rightarrow> (string \<Rightarrow> ndarray) \<Rightarrow> (string \<rightharpoonup> ndarray)" where
  "draw_fl rnd g \<sigma> = foldl (draw_node_fl rnd \<sigma>) Map.empty g"

section \<open>The variables the block declares\<close>

text \<open>
  The variables that the statements of the block declare, group by group, as the run
  computes them (lemmas \<open>run_first_ten\<close> to \<open>run_loss_CDR\<close> below): the deployment statements,
  the statements on the soil, the three variables that need the round-1 treatment slice
  \<open>t1\<close>, the observed enrichment with its data \<open>obs\<close>, the two latent variables of the
  control drift and the observed drift with its data, the variables of the concentration
  loss with the round-2 slice \<open>t2\<close> and the round-3 slice \<open>t3\<close>, and the CDR
  deterministics. The shape \<open>s\<close> is that of a slice of the frame.
\<close>

definition deployment_nodes :: model where
  "deployment_nodes =
     [(''wet feedstock mass'', Latent (Normal (num 12800) (num 100)) []),
      (''treatment area'', Latent (Normal (num 3200) (num 32)) []),
      (''sample depth'', Latent (Gamma (num 0.1) (num 0.025)) []),
      (''feedstock moisture fraction'', Latent (Normal (num 0.125) (num 0.025)) []),
      (''dry feedstock mass'',
         Derived (Mul (Sub (num 1) feedstock_moisture_fraction) wet_feedstock_mass) []),
      (''application rate'', Derived (Div dry_feedstock_mass treatment_area) []),
      (''feedstock concentration'',
         Latent (Normal (Const (array [0.07, 0.05])) (Const (array [0.0035, 0.0025]))) [2])]"

definition soil_nodes :: model where
  "soil_nodes =
     [(''soil density'', Latent (Normal (num 1000) (num 100)) []),
      (''soil mass'', Derived (Mul soil_density sample_depth) []),
      (''mixing fraction'',
         Derived (Div application_rate (Add application_rate soil_mass)) [])]"

definition enrichment_nodes :: "nat list \<Rightarrow> ndarray \<Rightarrow> model" where
  "enrichment_nodes s t1 =
     [(''mixed concentration'',
         Derived (Add (Mul mixing_fraction feedstock_concentration)
                      (Mul (Sub (num 1) mixing_fraction) (Const t1))) s),
      (''enrichment'', Derived (Sub mixed_concentration (Const t1)) s),
      (''enrichment sigma'', Latent (Exponential (num 0.001)) [1, 2])]"

definition obs_enriched :: "ndarray \<Rightarrow> model" where
  "obs_enriched obs = [(''obs enriched'', Observed (Normal enrichment enrichment_sigma) obs)]"

definition drift_nodes :: model where
  "drift_nodes =
     [(''control change'', Latent (Normal (num 0) (num 0.001)) [1, 2]),
      (''control change sigma'', Latent (HalfNormal (num 0.001)) [1, 2])]"

definition obs_control :: "ndarray \<Rightarrow> model" where
  "obs_control obs =
     [(''obs control'', Observed (Normal control_change control_change_sigma) obs)]"

definition loss_nodes :: "nat list \<Rightarrow> ndarray \<Rightarrow> ndarray \<Rightarrow> model" where
  "loss_nodes s t2 t3 =
     [(''norm loss mu'', Latent (Uniform 0 1) []),
      (''norm loss sigma'', Latent (Beta (num 1) (num 6)) []),
      (''norm loss'', Latent (Normal norm_loss_mu norm_loss_sigma) [1, 2]),
      (''concentration loss'', Derived (Mul norm_loss enrichment) s),
      (''weathered concentration'',
         Derived (Sub (Const t2) (Sub concentration_loss control_change)) s),
      (''weathered sigma'', Latent (Exponential (num 0.001)) [1, 2]),
      (''obs weathered'', Observed (Normal weathered_concentration weathered_sigma) t3)]"

definition CDR_nodes :: model where
  "CDR_nodes =
     [(''CDR potential (per mass)'',
         Derived (Sum (Mul feedstock_concentration (Const (array [2.196, 3.621])))) []),
      (''CDR potential (per area)'', Derived (Mul application_rate cdrpot) []),
      (''CDR (per area)'',
         Derived (Mul (Sum (Mul (Mul norm_loss feedstock_concentration)
                                (Const (array [2.196, 3.621]))))
                      application_rate) []),
      (''CDR [metric ton CO2]'', Derived (Div (Mul cdr treatment_area) (num 1000)) []),
      (''CDR completion [-]'', Derived (Div cdr cdrpot_area) [])]"

text \<open>Whether a variable of the model is an observation.\<close>

fun is_observation :: "node \<Rightarrow> bool" where
  "is_observation (Latent d s) = False"
| "is_observation (Derived e s) = False"
| "is_observation (Observed d a) = True"

section \<open>Example inputs\<close>

text \<open>A cube of three samples, three analytes and two realizations; one tag is 2.\<close>

definition demo_cube :: dataset where
  "demo_cube =
     \<lparr>ds_shape = (3, 3, 2),
      ds_data = (\<lambda>i j r. real (100 * i + 10 * j + r)),
      attrs_analytes = [''Ca'', ''Mg'', ''aux''],
      ds_control = [1, 0, 2],
      ds_round = [1, 1, 1]\<rparr>"

text \<open>A cube whose first analyte is named like the inserted column \<^verbatim>\<open>round\<close>.\<close>

definition clash_cube :: dataset where
  "clash_cube =
     \<lparr>ds_shape = (1, 3, 1),
      ds_data = (\<lambda>i j r. 0),
      attrs_analytes = [''round'', ''Mg'', ''aux''],
      ds_control = [0],
      ds_round = [1]\<rparr>"

text \<open>
  The synthetic table of the end-to-end scenario, in sorted order: one row for each plot
  type and round.
\<close>

definition synthetic_table :: table where
  "synthetic_table =
     \<lparr>columns = [''Ca'', ''Mg''],
      rows = [(control 1, [0.05, 0.04]),
              (control 2, [0.051, 0.041]),
              (control 3, [0.0505, 0.0405]),
              (treatment 1, [0.05, 0.04]),
              (treatment 2, [0.07, 0.05]),
              (treatment 3, [0.065, 0.045])]\<rparr>"

text \<open>
  The same measurements on two plots of each type: two rows for each plot type and round,
  in sorted order.
\<close>

definition two_plot_table :: table where
  "two_plot_table =
     \<lparr>columns = [''Ca'', ''Mg''],
      rows = [(control 1, [0.05, 0.04]), (control 1, [0.05, 0.04]),
              (control 2, [0.051, 0.041]), (control 2, [0.051, 0.041]),
              (control 3, [0.0505, 0.0405]), (control 3, [0.0505, 0.0405]),
              (treatment 1, [0.05, 0.04]), (treatment 1, [0.05, 0.04]),
              (treatment 2, [0.07, 0.05]), (treatment 2, [0.07, 0.05]),
              (treatment 3, [0.065, 0.045]), (treatment 3, [0.065, 0.045])]\<rparr>"


text \<open>A sample given by a list of drawn values; a name the list lacks draws 0.\<close>

definition sample_of :: "(string \<times> ndarray) list \<Rightarrow> string \<Rightarrow> ndarray" where
  "sample_of xs n = (case map_of xs n of Some a \<Rightarrow> a | None \<Rightarrow> scalar 0)"

text \<open>
  Two samples: every latent variable at the mean of its prior (and the noise scales at
  0.001), and the same with a soil density of -100, a value in the support of its normal
  prior.
\<close>

definition mean_draws :: "(string \<times> ndarray) list" where
  "mean_draws =
     [(''wet feedstock mass'', scalar 12800),
      (''treatment area'', scalar 3200),
      (''sample depth'', scalar 0.1),
      (''feedstock moisture fraction'', scalar 0.125),
      (''feedstock concentration'', array [0.07, 0.05]),
      (''soil density'', scalar 1000),
      (''enrichment sigma'', NDArray [1, 2] [0.001, 0.001]),
      (''control change'', NDArray [1, 2] [0, 0]),
      (''control change sigma'', NDArray [1, 2] [0.001, 0.001]),
      (''norm loss mu'', scalar 0.5),
      (''norm loss sigma'', scalar 0.1),
      (''norm loss'', NDArray [1, 2] [0.5, 0.5]),
      (''weathered sigma'', NDArray [1, 2] [0.001, 0.001])]"

definition mean_sample :: "string \<Rightarrow> ndarray" where
  "mean_sample = sample_of mean_draws"




section \<open>Properties of the extractor\<close>

text \<open>
  \<^verbatim>\<open>load_realization\<close> fails on a bad position before anything else, and on a cube that
  meets the shape contract it returns the labelled rows of the slice, sorted.
\<close>

lemma axis_index_out:
  "i < - int n \<or> int n \<le> i \<Longrightarrow>
   axis_index n i = Inl (if 2 ^ 63 \<le> i \<and> i < 2 ^ 64 then OverflowError else IndexError)"
  by (auto simp: axis_index_def)

lemma axis_index_neg: "- int n \<le> i \<Longrightarrow> i < 0 \<Longrightarrow> axis_index n i = axis_index n (int n + i)"
  by (auto simp: axis_index_def)

lemma axis_index_in: "- int n \<le> i \<Longrightarrow> i < int n \<Longrightarrow> \<exists>k. axis_index n i = Inr k \<and> k < n"
  by (auto simp: axis_index_def)

lemma load_realization_by_axis:
  "load_realization ds r =
     (case axis_index (n_realizations ds) r of
        Inl e \<Rightarrow> Inl e
      | Inr k \<Rightarrow>
          if length (butlast (attrs_analytes ds)) \<noteq> fst (snd (ds_shape ds)) - 1
             \<or> ''control'' \<in> set (butlast (attrs_analytes ds))
             \<or> length (ds_control ds) \<noteq> fst (ds_shape ds)
             \<or> ''round'' \<in> set (butlast (attrs_analytes ds))
             \<or> length (ds_round ds) \<noteq> fst (ds_shape ds)
          then Inl ValueError
          else Inr (sort_index \<lparr>columns = butlast (attrs_analytes ds), rows = labelled_rows ds k\<rparr>))"
  by (cases "ds_shape ds")
     (auto simp: load_realization_def n_realizations_def Let_def split: sum.splits)

lemma load_realization_ok:
  assumes "schema_ok ds" "axis_index (n_realizations ds) r = Inr k"
  shows "load_realization ds r =
    Inr (sort_index \<lparr>columns = butlast (attrs_analytes ds), rows = labelled_rows ds k\<rparr>)"
  using assms
  by (cases "ds_shape ds") (auto simp: load_realization_by_axis schema_ok_def)

lemma length_labelled_rows:
  "schema_ok ds \<Longrightarrow> length (labelled_rows ds k) = fst (ds_shape ds)"
  by (auto simp: labelled_rows_def schema_ok_def slice_def split: prod.splits)

lemma nth_labelled_rows:
  "schema_ok ds \<Longrightarrow> i < fst (ds_shape ds) \<Longrightarrow>
   labelled_rows ds k ! i =
     ((replace_tag (ds_control ds ! i), Num (ds_round ds ! i)),
      map (\<lambda>j. ds_data ds i j k) [0..<fst (snd (ds_shape ds)) - 1])"
  by (auto simp: labelled_rows_def schema_ok_def slice_def split: prod.splits)

lemma demo_cube_schema: "schema_ok demo_cube"
  by (simp add: demo_cube_def schema_ok_def)

lemma demo_cube_realizations: "n_realizations demo_cube = 2"
  by (simp add: demo_cube_def n_realizations_def)

text \<open>
  Claim C5, as amended. For every cube that meets the shape contract (in particular none of
  the analyte names that are kept is \<^verbatim>\<open>control\<close> or \<^verbatim>\<open>round\<close>), has at least two analyte
  names, and every realization index within \<open>-n \<dots> n - 1\<close>, \<^verbatim>\<open>load_realization\<close> returns a
  table whose columns are the analyte names but the last, so one fewer than the names;
  whose rows are sorted ascending by (plot label, round); and whose rows are those of the
  selected slice, each with the tag of its sample replaced (1 by \<^verbatim>\<open>control\<close>, 0 by
  \<^verbatim>\<open>treatment\<close>, see \<open>replace_tag\<close>), its round and its unaltered cells, with rows of equal
  labels in their original order.
\<close>

theorem load_realization_table:
  assumes "schema_ok ds" "2 \<le> length (attrs_analytes ds)"
    "- int (n_realizations ds) \<le> r" "r < int (n_realizations ds)"
  shows "\<exists>t k. load_realization ds r = Inr t \<and> axis_index (n_realizations ds) r = Inr k
     \<and> columns t = butlast (attrs_analytes ds)
     \<and> length (columns t) + 1 = length (attrs_analytes ds)
     \<and> sorted (map (\<lambda>row. index_key (fst row)) (rows t))
     \<and> mset (rows t) = mset (labelled_rows ds k)
     \<and> (\<forall>key. filter (\<lambda>row. index_key (fst row) = key) (rows t)
              = filter (\<lambda>row. index_key (fst row) = key) (labelled_rows ds k))
     \<and> length (labelled_rows ds k) = fst (ds_shape ds)
     \<and> (\<forall>i < fst (ds_shape ds). labelled_rows ds k ! i =
           ((replace_tag (ds_control ds ! i), Num (ds_round ds ! i)),
            map (\<lambda>j. ds_data ds i j k) [0..<fst (snd (ds_shape ds)) - 1]))"
proof -
  obtain k where k: "axis_index (n_realizations ds) r = Inr k"
    using axis_index_in[of "n_realizations ds" r] assms by auto
  let ?t = "sort_index \<lparr>columns = butlast (attrs_analytes ds), rows = labelled_rows ds k\<rparr>"
  have t: "load_realization ds r = Inr ?t"
    using load_realization_ok[OF assms(1) k] .
  have c: "columns ?t = butlast (attrs_analytes ds)" by (simp add: sort_index_def)
  have r: "rows ?t = sort_key (\<lambda>row. index_key (fst row)) (labelled_rows ds k)"
    by (simp add: sort_index_def)
  have s: "sorted (map (\<lambda>row. index_key (fst row)) (rows ?t))" by (simp add: r)
  have m: "mset (rows ?t) = mset (labelled_rows ds k)" by (simp add: r)
  have f: "\<forall>key. filter (\<lambda>row. index_key (fst row) = key) (rows ?t)
              = filter (\<lambda>row. index_key (fst row) = key) (labelled_rows ds k)"
    by (simp add: r sort_key_stable)
  have n: "length (butlast (attrs_analytes ds)) + 1 = length (attrs_analytes ds)"
    using assms(2) by simp
  show ?thesis
    using t k c n s m f length_labelled_rows[OF assms(1)] nth_labelled_rows[OF assms(1)]
    by (intro exI[of _ ?t] exI[of _ k]) simp
qed

text \<open>Claim C5, witness: realization 0 of the demo cube.\<close>

theorem load_realization_table_witness:
  "\<exists>t. load_realization demo_cube 0 = Inr t
     \<and> columns t = [''Ca'', ''Mg'']
     \<and> length (columns t) = 2
     \<and> sorted (map (\<lambda>row. index_key (fst row)) (rows t))
     \<and> mset (rows t) = mset (labelled_rows demo_cube 0)"
proof -
  have a: "attrs_analytes demo_cube = [''Ca'', ''Mg'', ''aux'']" by (simp add: demo_cube_def)
  have k: "axis_index 2 0 = Inr 0" by (simp add: axis_index_def)
  show ?thesis
    using load_realization_table[of demo_cube 0] demo_cube_schema
    by (auto simp add: demo_cube_realizations a k)
qed

text \<open>
  Claim C5, counterexample to the claim as stated: a cube with three analyte names and the
  index 0 within its bound, on which \<^verbatim>\<open>insert\<close> raises ValueError because the first
  analyte is called \<^verbatim>\<open>round\<close>.
\<close>

theorem reserved_analyte_name_fails:
  "2 \<le> length (attrs_analytes clash_cube)
   \<and> 0 \<le> (0::int) \<and> (0::int) < int (n_realizations clash_cube)
   \<and> load_realization clash_cube 0 = Inl ValueError"
  by (simp add: clash_cube_def n_realizations_def load_realization_def axis_index_def)

text \<open>
  Claim C7, as amended. For every cube with a third axis of length \<open>n\<close> and every integer
  realization index \<open>r\<close> with \<open>r < -n\<close> or \<open>n \<le> r\<close>, \<^verbatim>\<open>load_realization\<close> fails and returns
  no table: with OverflowError when \<open>2^63 \<le> r < 2^64\<close>, and with IndexError otherwise.
\<close>

theorem load_realization_index_error:
  assumes "r < - int (n_realizations ds) \<or> int (n_realizations ds) \<le> r"
  shows "load_realization ds r =
           Inl (if 2 ^ 63 \<le> r \<and> r < 2 ^ 64 then OverflowError else IndexError)"
  using axis_index_out[OF assms] by (simp add: load_realization_by_axis)

text \<open>
  Claim C7, witness: the positions 2, -3, \<open>2^63\<close> and \<open>2^64\<close> on the axis of length 2 of
  the demo cube.
\<close>

theorem load_realization_index_error_witness:
  "load_realization demo_cube 2 = Inl IndexError
   \<and> load_realization demo_cube (-3) = Inl IndexError
   \<and> load_realization demo_cube (2 ^ 63) = Inl OverflowError
   \<and> load_realization demo_cube (2 ^ 64) = Inl IndexError"
  using load_realization_index_error[of 2 demo_cube]
    load_realization_index_error[of "-3" demo_cube]
    load_realization_index_error[of "2 ^ 63" demo_cube]
    load_realization_index_error[of "2 ^ 64" demo_cube]
  by (simp add: demo_cube_realizations)

text \<open>
  Claim C7, counterexample to the claim as stated: the position -1 is not within
  \<open>0 \<dots> n - 1\<close>, yet \<^verbatim>\<open>load_realization\<close> returns the table of the last realization; and
  the position \<open>2^63\<close> is not within \<open>-n \<dots> n - 1\<close> either, yet the exception is no
  IndexError.
\<close>

theorem negative_index_no_index_error:
  "\<not> (0 \<le> (-1::int) \<and> (-1::int) < int (n_realizations demo_cube))
   \<and> load_realization demo_cube (-1) =
       Inr \<lparr>columns = [''Ca'', ''Mg''],
            rows = [((Num 2, Num 1), [201, 211]),
                    ((Str ''control'', Num 1), [1, 11]),
                    ((Str ''treatment'', Num 1), [101, 111])]\<rparr>
   \<and> int (n_realizations demo_cube) \<le> 2 ^ 63
   \<and> load_realization demo_cube (2 ^ 63) = Inl OverflowError"
  by (simp add: demo_cube_def n_realizations_def load_realization_def axis_index_def
        sort_index_def labelled_rows_def slice_def replace_tag_def index_key_def
        less_eq_prod_def less_prod_def upt_rec)

text \<open>
  Claim C9. For every cube that meets the shape contract, every realization index within
  its bound and every tag of the cube other than 0 and 1, \<^verbatim>\<open>load_realization\<close> returns a
  table, and the tag is, as the number it is, a label of the first index level; the labels
  of that level are the tags of the cube, each replaced or left as \<open>replace_tag\<close> says, so
  the tag stands beside the labels \<^verbatim>\<open>control\<close> and \<^verbatim>\<open>treatment\<close> of the other rows.
\<close>

theorem unrecognized_tag_passes_through:
  assumes "schema_ok ds" "- int (n_realizations ds) \<le> r" "r < int (n_realizations ds)"
    "v \<in> set (ds_control ds)" "v \<noteq> 0" "v \<noteq> 1"
  shows "\<exists>t. load_realization ds r = Inr t
     \<and> Num v \<in> set (map (\<lambda>row. fst (fst row)) (rows t))
     \<and> mset (map (\<lambda>row. fst (fst row)) (rows t)) = mset (map replace_tag (ds_control ds))"
proof -
  obtain k where k: "axis_index (n_realizations ds) r = Inr k"
    using axis_index_in[of "n_realizations ds" r] assms by auto
  let ?t = "sort_index \<lparr>columns = butlast (attrs_analytes ds), rows = labelled_rows ds k\<rparr>"
  have t: "load_realization ds r = Inr ?t"
    using load_realization_ok[OF assms(1) k] .
  have labels: "map (\<lambda>row. fst (fst row)) (labelled_rows ds k) = map replace_tag (ds_control ds)"
    using assms(1)
    by (auto simp: labelled_rows_def schema_ok_def slice_def split: prod.splits
             intro!: nth_equalityI)
  moreover have "replace_tag v = Num v" using assms by (simp add: replace_tag_def)
  ultimately have "Num v \<in> set (map (\<lambda>row. fst (fst row)) (labelled_rows ds k))"
    using assms(4) by force
  then have v: "Num v \<in> set (map (\<lambda>row. fst (fst row)) (rows ?t))"
    by (simp add: sort_index_def)
  have "mset (rows ?t) = mset (labelled_rows ds k)"
    by (simp add: sort_index_def)
  then have "mset (map (\<lambda>row. fst (fst row)) (rows ?t))
      = mset (map (\<lambda>row. fst (fst row)) (labelled_rows ds k))"
    by (metis mset_map)
  then have l: "mset (map (\<lambda>row. fst (fst row)) (rows ?t)) = mset (map replace_tag (ds_control ds))"
    by (simp only: labels)
  from t v l show ?thesis by blast
qed

text \<open>Claim C9, witness: the tag 2 of the demo cube.\<close>

theorem unrecognized_tag_passes_through_witness:
  "\<exists>t. load_realization demo_cube 0 = Inr t
     \<and> Num 2 \<in> set (map (\<lambda>row. fst (fst row)) (rows t))
     \<and> mset (map (\<lambda>row. fst (fst row)) (rows t)) = mset [Str ''control'', Str ''treatment'', Num 2]"
proof -
  have c: "2 \<in> set (ds_control demo_cube)" by (simp add: demo_cube_def)
  have l: "map replace_tag (ds_control demo_cube) = [Str ''control'', Str ''treatment'', Num 2]"
    by (simp add: demo_cube_def replace_tag_def)
  show ?thesis
    using unrecognized_tag_passes_through[of demo_cube 0 2] demo_cube_schema c
    by (simp add: demo_cube_realizations l)
qed

lemma labelled_rows_cells:
  assumes "schema_ok ds"
  shows "labelled_rows ds k =
     map (\<lambda>i. ((replace_tag (ds_control ds ! i), Num (ds_round ds ! i)),
               map (\<lambda>j. ds_data ds i j k) [0..<fst (snd (ds_shape ds)) - 1]))
         [0..<fst (ds_shape ds)]"
  by (rule nth_equalityI)
     (simp_all add: length_labelled_rows[OF assms] nth_labelled_rows[OF assms])

text \<open>
  Claim C10, as amended. For every cube with a third axis of length \<open>n\<close> and every negative
  index \<open>r\<close> with \<open>-n \<le> r < 0\<close>, \<^verbatim>\<open>load_realization\<close> does at \<open>r\<close> what it does at \<open>n + r\<close>,
  so at -1 what it does at \<open>n - 1\<close>; and on a cube that meets the shape contract it raises
  no exception and returns the table of the slice at \<open>n + r\<close>: the columns are the analyte
  names but the last, and the rows are, sorted by their labels, one for each sample \<open>i\<close>,
  with the replaced tag and the round of the sample and the cells of the cube at sample
  \<open>i\<close>, analyte \<open>j\<close> and realization \<open>n + r\<close>.
\<close>

theorem load_realization_negative_index:
  assumes "- int (n_realizations ds) \<le> r" "r < 0"
  shows "load_realization ds r = load_realization ds (int (n_realizations ds) + r)
       \<and> (schema_ok ds \<longrightarrow>
            load_realization ds r =
              Inr (sort_index
                \<lparr>columns = butlast (attrs_analytes ds),
                 rows = map (\<lambda>i. ((replace_tag (ds_control ds ! i), Num (ds_round ds ! i)),
                                  map (\<lambda>j. ds_data ds i j (nat (int (n_realizations ds) + r)))
                                      [0..<fst (snd (ds_shape ds)) - 1]))
                            [0..<fst (ds_shape ds)]\<rparr>))"
proof -
  have eq: "axis_index (n_realizations ds) r = axis_index (n_realizations ds) (int (n_realizations ds) + r)"
    using assms by (rule axis_index_neg)
  have k: "axis_index (n_realizations ds) r = Inr (nat (int (n_realizations ds) + r))"
    using assms by (simp add: axis_index_def)
  have 1: "load_realization ds r = load_realization ds (int (n_realizations ds) + r)"
    using eq by (simp add: load_realization_by_axis)
  have 2: "load_realization ds r =
              Inr (sort_index
                \<lparr>columns = butlast (attrs_analytes ds),
                 rows = map (\<lambda>i. ((replace_tag (ds_control ds ! i), Num (ds_round ds ! i)),
                                  map (\<lambda>j. ds_data ds i j (nat (int (n_realizations ds) + r)))
                                      [0..<fst (snd (ds_shape ds)) - 1]))
                            [0..<fst (ds_shape ds)]\<rparr>)"
    if "schema_ok ds"
    using load_realization_ok[OF that k] by (simp only: labelled_rows_cells[OF that])
  from 1 2 show ?thesis by blast
qed

text \<open>
  Claim C10, witness: position -1 of the demo cube is its position 1, and the table holds
  the cells of realization 1 (the numbers that end in 1).
\<close>

theorem load_realization_negative_index_witness:
  "schema_ok demo_cube
   \<and> load_realization demo_cube (-1) = load_realization demo_cube 1
   \<and> load_realization demo_cube (-1) =
       Inr \<lparr>columns = [''Ca'', ''Mg''],
            rows = [((Num 2, Num 1), [201, 211]),
                    ((Str ''control'', Num 1), [1, 11]),
                    ((Str ''treatment'', Num 1), [101, 111])]\<rparr>"
proof -
  have b: "- int (n_realizations demo_cube) \<le> - 1" by (simp add: demo_cube_realizations)
  have c: "(- 1 :: int) < 0" by simp
  have e: "int (n_realizations demo_cube) + - 1 = 1" by (simp add: demo_cube_realizations)
  have t: "sort_index
       \<lparr>columns = butlast (attrs_analytes demo_cube),
        rows = map (\<lambda>i. ((replace_tag (ds_control demo_cube ! i), Num (ds_round demo_cube ! i)),
                         map (\<lambda>j. ds_data demo_cube i j (nat 1))
                             [0..<fst (snd (ds_shape demo_cube)) - 1]))
                   [0..<fst (ds_shape demo_cube)]\<rparr>
     = \<lparr>columns = [''Ca'', ''Mg''],
            rows = [((Num 2, Num 1), [201, 211]),
                    ((Str ''control'', Num 1), [1, 11]),
                    ((Str ''treatment'', Num 1), [101, 111])]\<rparr>"
    by (simp add: demo_cube_def sort_index_def replace_tag_def index_key_def
          less_eq_prod_def less_prod_def upt_rec)
  show ?thesis
    using load_realization_negative_index[OF b c] demo_cube_schema unfolding e t by blast
qed

text \<open>
  Claim C10, counterexample to the claim as stated: on a cube whose first analyte is
  called \<^verbatim>\<open>round\<close>, the position -1 is within \<open>-n \<dots> -1\<close> and \<^verbatim>\<open>load_realization\<close> raises
  ValueError.
\<close>

theorem negative_index_value_error:
  "- int (n_realizations clash_cube) \<le> - 1 \<and> (- 1 :: int) < 0
   \<and> load_realization clash_cube (- 1) = Inl ValueError"
  by (simp add: clash_cube_def n_realizations_def load_realization_def axis_index_def)

section \<open>Arithmetic on the shapes of the model\<close>

text \<open>
  The model computes with scalars, with arrays of shape (2) and (1, 2), and with the
  slices of the frame. Elementwise operators on these shapes, by the broadcasting rules.
\<close>

lemma length_two: "length xs = 2 \<Longrightarrow> \<exists>a b. xs = [a, b]"
  by (auto simp: numeral_2_eq_2 length_Suc_conv)

lemma indices_nil: "indices [] = [[]]" by simp

lemma indices_2: "indices [2] = [[0], [1]]" by (simp add: upt_rec)

lemma indices_1_2: "indices [Suc 0, 2] = [[0, 0], [0, 1]]" by (simp add: upt_rec)

lemma indices_2_2: "indices [2, 2] = [[0, 0], [0, 1], [1, 0], [1, 1]]" by (simp add: upt_rec)

lemma elementwise_scalars:
  "elementwise f (NDArray [] [x]) (NDArray [] [y]) = Some (NDArray [] [f x y])"
  by (simp add: elementwise_def broadcast_shapes_def element_at_def offset_def indices_nil Let_def del: indices.simps(2))

lemma elementwise_scalar_vector:
  "elementwise f (NDArray [] [x]) (NDArray [2] [a, b]) = Some (NDArray [2] [f x a, f x b])"
  by (simp add: elementwise_def broadcast_shapes_def element_at_def offset_def indices_2 Let_def del: indices.simps(2))

lemma elementwise_vector_scalar:
  "elementwise f (NDArray [2] [a, b]) (NDArray [] [x]) = Some (NDArray [2] [f a x, f b x])"
  by (simp add: elementwise_def broadcast_shapes_def element_at_def offset_def indices_2 Let_def del: indices.simps(2))

lemma elementwise_vectors:
  "elementwise f (NDArray [2] [a, b]) (NDArray [2] [c, d]) = Some (NDArray [2] [f a c, f b d])"
  by (simp add: elementwise_def broadcast_shapes_def element_at_def offset_def indices_2 Let_def del: indices.simps(2))

lemma elementwise_vector_row:
  "elementwise f (NDArray [2] [a, b]) (NDArray [1, 2] [c, d]) = Some (NDArray [1, 2] [f a c, f b d])"
  by (simp add: elementwise_def broadcast_shapes_def element_at_def offset_def indices_1_2 Let_def del: indices.simps(2))

lemma elementwise_row_vector:
  "elementwise f (NDArray [1, 2] [a, b]) (NDArray [2] [c, d]) = Some (NDArray [1, 2] [f a c, f b d])"
  by (simp add: elementwise_def broadcast_shapes_def element_at_def offset_def indices_1_2 Let_def del: indices.simps(2))

lemma elementwise_rows:
  "elementwise f (NDArray [1, 2] [a, b]) (NDArray [1, 2] [c, d]) = Some (NDArray [1, 2] [f a c, f b d])"
  by (simp add: elementwise_def broadcast_shapes_def element_at_def offset_def indices_1_2 Let_def del: indices.simps(2))

lemma elementwise_frames:
  "elementwise f (NDArray [2, 2] [a, b, c, d]) (NDArray [2, 2] [p, q, r, s])
     = Some (NDArray [2, 2] [f a p, f b q, f c r, f d s])"
  by (simp add: elementwise_def broadcast_shapes_def element_at_def offset_def indices_2_2 Let_def del: indices.simps(2))

lemma elementwise_frame_scalar:
  "elementwise f (NDArray [2, 2] [a, b, c, d]) (NDArray [] [x])
     = Some (NDArray [2, 2] [f a x, f b x, f c x, f d x])"
  by (simp add: elementwise_def broadcast_shapes_def element_at_def offset_def indices_2_2 Let_def del: indices.simps(2))

lemma elementwise_scalar_frame:
  "elementwise f (NDArray [] [x]) (NDArray [2, 2] [a, b, c, d])
     = Some (NDArray [2, 2] [f x a, f x b, f x c, f x d])"
  by (simp add: elementwise_def broadcast_shapes_def element_at_def offset_def indices_2_2 Let_def del: indices.simps(2))

lemma elementwise_vector_frame:
  "elementwise f (NDArray [2] [p, q]) (NDArray [2, 2] [a, b, c, d])
     = Some (NDArray [2, 2] [f p a, f q b, f p c, f q d])"
  by (simp add: elementwise_def broadcast_shapes_def element_at_def offset_def indices_2_2 Let_def del: indices.simps(2))

lemma elementwise_row_frame:
  "elementwise f (NDArray [1, 2] [p, q]) (NDArray [2, 2] [a, b, c, d])
     = Some (NDArray [2, 2] [f p a, f q b, f p c, f q d])"
  by (simp add: elementwise_def broadcast_shapes_def element_at_def offset_def indices_2_2 Let_def del: indices.simps(2))

lemma elementwise_frame_row:
  "elementwise f (NDArray [2, 2] [a, b, c, d]) (NDArray [1, 2] [p, q])
     = Some (NDArray [2, 2] [f a p, f b q, f c p, f d q])"
  by (simp add: elementwise_def broadcast_shapes_def element_at_def offset_def indices_2_2 Let_def del: indices.simps(2))

lemma array_two: "array [a, b] = NDArray [2] [a, b]"
  by (simp add: array_def)

lemmas elementwise_simps =
  elementwise_scalars elementwise_scalar_vector elementwise_vector_scalar elementwise_vectors
  elementwise_vector_row[unfolded One_nat_def] elementwise_row_vector[unfolded One_nat_def]
  elementwise_rows[unfolded One_nat_def] elementwise_frames elementwise_frame_scalar
  elementwise_scalar_frame elementwise_vector_frame
  elementwise_row_frame[unfolded One_nat_def] elementwise_frame_row[unfolded One_nat_def]

lemma broadcast_rev_same: "broadcast_rev xs xs = Some xs"
  by (induction xs) auto

lemma broadcast_shapes_same: "broadcast_shapes s s = Some s"
  by (simp add: broadcast_shapes_def broadcast_rev_same)

lemma broadcast_shapes_nil: "broadcast_shapes s [] = Some s"
  by (cases "rev s") (auto simp: broadcast_shapes_def rev_swap)

lemma shape_elementwise:
  "elementwise f a b = Some c \<Longrightarrow> broadcast_shapes (shape a) (shape b) = Some (shape c)"
  by (auto simp: elementwise_def split: option.splits)

lemma np_op_same_shape:
  "shape a = shape b \<Longrightarrow> \<exists>c. np_op f a b = Inr c \<and> shape c = shape a"
  by (simp add: np_op_def elementwise_def broadcast_shapes_same)

lemma np_op_scalar: "\<exists>c. np_op f a (scalar x) = Inr c \<and> shape c = shape a"
  by (simp add: np_op_def elementwise_def broadcast_shapes_nil scalar_def)

section \<open>The run of the block\<close>

text \<open>
  The arguments of every statement of the block only read the state, and the declaration
  changes nothing but the model, to which a statement that succeeds appends one variable
  of its name. So a run leaves the frame and the outside world as they were.
\<close>

lemma reads_only_result: "reads_only (result x)"
  by (simp add: reads_only_def result_def)

lemma reads_only_df_loc: "reads_only (df_loc key)"
  by (simp add: reads_only_def df_loc_def)

lemma reads_only_computed: "reads_only (computed r)"
  by (simp add: reads_only_def computed_def)

lemma reads_only_then_do:
  assumes "reads_only a" and "\<And>x. reads_only (f x)"
  shows "reads_only (then_do a f)"
  unfolding reads_only_def then_do_def
proof
  fix s
  obtain r s' where a: "a s = (r, s')" by (cases "a s")
  with assms(1) have s': "s' = s" by (metis reads_only_def snd_conv)
  show "snd (case a s of (Inl e, s') \<Rightarrow> (Inl e, s') | (Inr x, s') \<Rightarrow> f x s') = s"
    using assms(2) by (cases r) (simp_all add: a s' reads_only_def)
qed

lemmas reads_only_intros =
  reads_only_result reads_only_df_loc reads_only_computed reads_only_then_do

lemma body_reads_only: "list_all (\<lambda>st. reads_only (snd st)) body"
  by (simp add: body_def deployment_def mixing_def post_spreading_enrichment_def
        change_in_control_def observed_concentration_loss_def CDR_def reads_only_intros)

lemma register_extends:
  "register g n d = Inr g' \<Longrightarrow> \<exists>v. g' = g @ [(n, v)]"
  by (cases d)
     (auto simp: bind_err_def add_named_variable_def split: sum.splits if_splits option.splits)

lemma exec_effect:
  assumes "reads_only (snd st)" and "exec st s = (r, s')"
  shows "frame s' = frame s \<and> io s' = io s
     \<and> (case r of Inl e \<Rightarrow> graph s' = graph s | Inr u \<Rightarrow> \<exists>v. graph s' = graph s @ [(fst st, v)])"
proof -
  obtain r1 s1 where a: "snd st s = (r1, s1)" by (cases "snd st s")
  with assms(1) have s1: "s1 = s" by (metis reads_only_def snd_conv)
  show ?thesis
  proof (cases r1)
    case (Inl e)
    with assms(2) a s1 show ?thesis by (auto simp: exec_def then_do_def)
  next
    case (Inr d)
    with assms(2) a s1 show ?thesis
      by (auto simp: exec_def then_do_def new_variable_def split: sum.splits
               dest: register_extends)
  qed
qed

lemma run_effect:
  assumes "list_all (\<lambda>st. reads_only (snd st)) sts" and "run sts s = (r, s')"
  shows "frame s' = frame s \<and> io s' = io s"
  using assms
proof (induction sts arbitrary: s)
  case Nil
  then show ?case by simp
next
  case (Cons st sts)
  obtain r1 s1 where e: "exec st s = (r1, s1)" by (cases "exec st s")
  from Cons.prems(1) have ro: "reads_only (snd st)" by simp
  note eff = exec_effect[OF ro e]
  show ?case
  proof (cases r1)
    case (Inl err)
    with Cons.prems e eff show ?thesis by auto
  next
    case (Inr u)
    with Cons.prems e have "run sts s1 = (r, s')" by simp
    with Cons.IH Cons.prems(1) have "frame s' = frame s1 \<and> io s' = io s1" by simp
    with eff show ?thesis by simp
  qed
qed

lemma run_extends:
  assumes "list_all (\<lambda>st. reads_only (snd st)) sts" and "run sts s = (Inr u, s')"
  shows "\<exists>ext. graph s' = graph s @ ext \<and> map fst ext = map fst sts"
  using assms
proof (induction sts arbitrary: s)
  case Nil
  then show ?case by simp
next
  case (Cons st sts)
  obtain r1 s1 where e: "exec st s = (r1, s1)" by (cases "exec st s")
  from Cons.prems(1) have ro: "reads_only (snd st)" by simp
  from e Cons.prems(2) obtain u1 where r1: "r1 = Inr u1" by (cases r1) auto
  with Cons.prems e have rest: "run sts s1 = (Inr u, s')" by simp
  from Cons.prems(1) have "list_all (\<lambda>st. reads_only (snd st)) sts" by simp
  from Cons.IH[OF this rest] obtain ext where
    ext: "graph s' = graph s1 @ ext" "map fst ext = map fst sts"
    by blast
  from exec_effect[OF ro e] r1 obtain v where "graph s1 = graph s @ [(fst st, v)]"
    by auto
  with ext show ?case by (intro exI[of _ "(fst st, v) # ext"]) simp
qed

lemma run_append:
  "run (xs @ ys) s = (case run xs s of (Inl e, s') \<Rightarrow> (Inl e, s') | (Inr u, s') \<Rightarrow> run ys s')"
  by (induction xs arbitrary: s) (auto split: prod.splits sum.splits)

lemma run_append_Inr: "run xs s = (Inr u, s') \<Longrightarrow> run (xs @ ys) s = run ys s'"
  by (simp add: run_append)

lemma run_append_Inl: "run xs s = (Inl e, s') \<Longrightarrow> run (xs @ ys) s = (Inl e, s')"
  by (simp add: run_append)

lemma run_split:
  assumes "run (xs @ ys) s = (Inr u, s')"
  shows "\<exists>s1. run xs s = (Inr (), s1) \<and> run ys s1 = (Inr u, s')"
  using assms by (auto simp: run_append split: prod.splits sum.splits)

text \<open>
  The run of the block in six parts: the ten statements that do not read the frame, the
  three that read the treatment slice of round 1, \<^verbatim>\<open>obs enriched\<close>, the two latent
  variables of the control drift, \<^verbatim>\<open>obs control\<close>, and the rest.
\<close>

lemma body_stages:
  "body = (deployment @ take 3 mixing)
     @ (drop 3 mixing @ take 2 post_spreading_enrichment)
     @ drop 2 post_spreading_enrichment
     @ take 2 change_in_control
     @ drop 2 change_in_control
     @ (observed_concentration_loss @ CDR)"
  by (simp add: body_def)

lemmas nodes_defs =
  deployment_nodes_def soil_nodes_def enrichment_nodes_def obs_enriched_def drift_nodes_def
  obs_control_def loss_nodes_def CDR_nodes_def

lemmas run_simps =
  exec_def then_do_def result_def df_loc_def computed_def new_variable_def
  bind_err_def size_of_def broadcast_err_def broadcast_shapes_def
  add_named_variable_def scalar_def array_def

lemma run_first_ten:
  "run (deployment @ take 3 mixing) \<lparr>frame = df, graph = [], io = out\<rparr> =
     (Inr (), \<lparr>frame = df, graph = deployment_nodes @ soil_nodes, io = out\<rparr>)"
  by (simp add: deployment_def mixing_def run_simps nodes_defs)

lemma run_enrichment:
  assumes "loc df (treatment 1) = Inr t1" and "shape t1 = [2] \<or> shape t1 = [m, 2]"
  shows "run (drop 3 mixing @ take 2 post_spreading_enrichment)
           \<lparr>frame = df, graph = deployment_nodes @ soil_nodes, io = out\<rparr> =
    (Inr (), \<lparr>frame = df,
              graph = deployment_nodes @ soil_nodes @ enrichment_nodes (shape t1) t1,
              io = out\<rparr>)"
  using assms
  by (auto simp add: mixing_def post_spreading_enrichment_def run_simps nodes_defs)

lemma run_obs_enriched:
  assumes "loc df (treatment 2) = Inr t2" and "loc df (treatment 1) = Inr t1"
    and "np_op (-) t2 t1 = Inr obs" and "shape obs = [m, 2]"
  shows "run (drop 2 post_spreading_enrichment)
           \<lparr>frame = df, graph = deployment_nodes @ soil_nodes @ enrichment_nodes [m, 2] t1,
            io = out\<rparr> =
    (Inr (), \<lparr>frame = df,
              graph = deployment_nodes @ soil_nodes @ enrichment_nodes [m, 2] t1
                      @ obs_enriched obs,
              io = out\<rparr>)"
  using assms
  by (simp add: post_spreading_enrichment_def run_simps nodes_defs)

lemma run_obs_enriched_series:
  assumes "loc df (treatment 2) = Inr t2" and "loc df (treatment 1) = Inr t1"
    and "np_op (-) t2 t1 = Inr obs" and "shape obs = [2]"
  shows "run (drop 2 post_spreading_enrichment)
           \<lparr>frame = df, graph = deployment_nodes @ soil_nodes @ enrichment_nodes [2] t1,
            io = out\<rparr> =
    (Inl ValueError,
     \<lparr>frame = df, graph = deployment_nodes @ soil_nodes @ enrichment_nodes [2] t1,
      io = out\<rparr>)"
  using assms
  by (simp add: post_spreading_enrichment_def run_simps nodes_defs)

lemma run_drift:
  "run (take 2 change_in_control)
           \<lparr>frame = df, graph = deployment_nodes @ soil_nodes @ enrichment_nodes s t1
              @ obs_enriched obs, io = out\<rparr> =
    (Inr (), \<lparr>frame = df,
              graph = deployment_nodes @ soil_nodes @ enrichment_nodes s t1
                      @ obs_enriched obs @ drift_nodes,
              io = out\<rparr>)"
  by (simp add: change_in_control_def run_simps nodes_defs)


lemma run_obs_control:
  assumes "loc df (control 3) = Inr c3" and "loc df (control 1) = Inr c1"
    and "np_op (/) c1 (scalar 2) = Inr h1"
    and "loc df (control 2) = Inr c2"
    and "np_op (/) c2 (scalar 2) = Inr h2"
    and "np_op (+) h1 h2 = Inr mean"
    and "pd_op (-) c3 mean = Inr obs" and "shape obs = [m, 2]"
  shows "run (drop 2 change_in_control)
           \<lparr>frame = df, graph = deployment_nodes @ soil_nodes @ enrichment_nodes s t1
              @ obs_enriched oe @ drift_nodes, io = out\<rparr> =
    (Inr (), \<lparr>frame = df,
              graph = deployment_nodes @ soil_nodes @ enrichment_nodes s t1
                      @ obs_enriched oe @ drift_nodes @ obs_control obs,
              io = out\<rparr>)"
  using assms
  by (simp add: change_in_control_def run_simps nodes_defs)

lemma run_loss_CDR:
  assumes "loc df (treatment 2) = Inr t2" and "shape t2 = [m, 2]"
    and "loc df (treatment 3) = Inr t3" and "shape t3 = [k, 2]"
  shows "run (observed_concentration_loss @ CDR)
           \<lparr>frame = df, graph = deployment_nodes @ soil_nodes @ enrichment_nodes [m, 2] t1
              @ obs_enriched oe @ drift_nodes @ obs_control oc, io = out\<rparr> =
    (Inr (), \<lparr>frame = df,
              graph = deployment_nodes @ soil_nodes @ enrichment_nodes [m, 2] t1
                      @ obs_enriched oe @ drift_nodes @ obs_control oc
                      @ loss_nodes [m, 2] t2 t3 @ CDR_nodes,
              io = out\<rparr>)"
  using assms
  by (simp add: observed_concentration_loss_def CDR_def run_simps nodes_defs)






lemma run_series:
  assumes "loc df (treatment 1) = Inr t1" and "shape t1 = [2]"
    and "loc df (treatment 2) = Inr t2" and "shape t2 = [2]"
  shows "run body \<lparr>frame = df, graph = [], io = out\<rparr> =
       (Inl ValueError,
        \<lparr>frame = df, graph = deployment_nodes @ soil_nodes @ enrichment_nodes [2] t1,
         io = out\<rparr>)"
proof -
  from np_op_same_shape[of t2 t1 "(-)"] assms(2,4)
  obtain obs where obs: "np_op (-) t2 t1 = Inr obs" "shape obs = [2]" by auto
  note first = run_append_Inr[OF run_first_ten]
  have "shape t1 = [2] \<or> shape t1 = [0, 2]" using assms(2) by simp
  note second = run_append_Inr[OF run_enrichment[OF assms(1) this], unfolded assms(2)]
  note third = run_append_Inl[OF run_obs_enriched_series[OF assms(3) assms(1) obs]]
  show ?thesis unfolding body_stages first second by (rule third)
qed

lemma run_frames:
  assumes "loc df (treatment 1) = Inr (NDArray [2, 2] [a1, a2, a3, a4])"
    and "loc df (treatment 2) = Inr (NDArray [2, 2] [b1, b2, b3, b4])"
    and "loc df (treatment 3) = Inr (NDArray [2, 2] [c1, c2, c3, c4])"
    and "loc df (control 1) = Inr (NDArray [2, 2] [p1, p2, p3, p4])"
    and "loc df (control 2) = Inr (NDArray [2, 2] [q1, q2, q3, q4])"
    and "loc df (control 3) = Inr (NDArray [2, 2] [r1, r2, r3, r4])"
  shows "run body \<lparr>frame = df, graph = [], io = out\<rparr> =
    (Inr (), \<lparr>frame = df, graph =
       deployment_nodes @ soil_nodes
       @ enrichment_nodes [2, 2] (NDArray [2, 2] [a1, a2, a3, a4])
       @ obs_enriched (NDArray [2, 2] [b1 - a1, b2 - a2, b3 - a3, b4 - a4])
       @ drift_nodes
       @ obs_control (NDArray [2, 2]
           [r1 - (p1 / 2 + q1 / 2), r2 - (p2 / 2 + q2 / 2),
            r3 - (p3 / 2 + q3 / 2), r4 - (p4 / 2 + q4 / 2)])
       @ loss_nodes [2, 2] (NDArray [2, 2] [b1, b2, b3, b4]) (NDArray [2, 2] [c1, c2, c3, c4])
       @ CDR_nodes, io = out\<rparr>)"
proof -
  let ?t1 = "NDArray [2, 2] [a1, a2, a3, a4]"
  let ?t2 = "NDArray [2, 2] [b1, b2, b3, b4]"
  have e: "np_op (-) ?t2 ?t1 = Inr (NDArray [2, 2] [b1 - a1, b2 - a2, b3 - a3, b4 - a4])"
    by (simp add: np_op_def elementwise_frames)
  have h1: "np_op (/) (NDArray [2, 2] [p1, p2, p3, p4]) (scalar 2)
      = Inr (NDArray [2, 2] [p1 / 2, p2 / 2, p3 / 2, p4 / 2])"
    by (simp add: np_op_def scalar_def elementwise_frame_scalar)
  have h2: "np_op (/) (NDArray [2, 2] [q1, q2, q3, q4]) (scalar 2)
      = Inr (NDArray [2, 2] [q1 / 2, q2 / 2, q3 / 2, q4 / 2])"
    by (simp add: np_op_def scalar_def elementwise_frame_scalar)
  have mean: "np_op (+) (NDArray [2, 2] [p1 / 2, p2 / 2, p3 / 2, p4 / 2])
        (NDArray [2, 2] [q1 / 2, q2 / 2, q3 / 2, q4 / 2])
      = Inr (NDArray [2, 2] [p1 / 2 + q1 / 2, p2 / 2 + q2 / 2, p3 / 2 + q3 / 2, p4 / 2 + q4 / 2])"
    by (simp add: np_op_def elementwise_frames)
  have oc: "pd_op (-) (NDArray [2, 2] [r1, r2, r3, r4])
        (NDArray [2, 2] [p1 / 2 + q1 / 2, p2 / 2 + q2 / 2, p3 / 2 + q3 / 2, p4 / 2 + q4 / 2])
      = Inr (NDArray [2, 2]
           [r1 - (p1 / 2 + q1 / 2), r2 - (p2 / 2 + q2 / 2),
            r3 - (p3 / 2 + q3 / 2), r4 - (p4 / 2 + q4 / 2)])"
    by (simp add: pd_op_def np_op_def elementwise_frames)
  note first = run_append_Inr[OF run_first_ten]
  have "shape ?t1 = [2] \<or> shape ?t1 = [2, 2]" by simp
  note second = run_append_Inr[OF run_enrichment[OF assms(1) this], unfolded ndarray.sel]
  have "shape (NDArray [2, 2] [b1 - a1, b2 - a2, b3 - a3, b4 - a4]) = [2, 2]" by simp
  note third = run_append_Inr[OF run_obs_enriched[OF assms(2) assms(1) e this]]
  note fourth = run_append_Inr[OF run_drift]
  have "shape (NDArray [2, 2]
           [r1 - (p1 / 2 + q1 / 2), r2 - (p2 / 2 + q2 / 2),
            r3 - (p3 / 2 + q3 / 2), r4 - (p4 / 2 + q4 / 2)]) = [2, 2]" by simp
  note fifth = run_append_Inr[OF run_obs_control[OF assms(6) assms(4) h1 assms(5) h2 mean oc this]]
  have s2: "shape ?t2 = [2, 2]" by simp
  have s3: "shape (NDArray [2, 2] [c1, c2, c3, c4]) = [2, 2]" by simp
  show ?thesis
    unfolding body_stages first second third fourth fifth
    by (rule run_loss_CDR[OF assms(2) s2 assms(3) s3])
qed

lemma init_model_frames:
  assumes "loc df (treatment 1) = Inr (NDArray [2, 2] [a1, a2, a3, a4])"
    and "loc df (treatment 2) = Inr (NDArray [2, 2] [b1, b2, b3, b4])"
    and "loc df (treatment 3) = Inr (NDArray [2, 2] [c1, c2, c3, c4])"
    and "loc df (control 1) = Inr (NDArray [2, 2] [p1, p2, p3, p4])"
    and "loc df (control 2) = Inr (NDArray [2, 2] [q1, q2, q3, q4])"
    and "loc df (control 3) = Inr (NDArray [2, 2] [r1, r2, r3, r4])"
  shows "init_model df = Inr
      (deployment_nodes @ soil_nodes
       @ enrichment_nodes [2, 2] (NDArray [2, 2] [a1, a2, a3, a4])
       @ obs_enriched (NDArray [2, 2] [b1 - a1, b2 - a2, b3 - a3, b4 - a4])
       @ drift_nodes
       @ obs_control (NDArray [2, 2]
           [r1 - (p1 / 2 + q1 / 2), r2 - (p2 / 2 + q2 / 2),
            r3 - (p3 / 2 + q3 / 2), r4 - (p4 / 2 + q4 / 2)])
       @ loss_nodes [2, 2] (NDArray [2, 2] [b1, b2, b3, b4]) (NDArray [2, 2] [c1, c2, c3, c4])
       @ CDR_nodes)"
  by (simp add: init_model_def run_frames[OF assms])

lemma two_plot_slices:
  "loc two_plot_table (treatment 1) = Inr (NDArray [2, 2] [0.05, 0.04, 0.05, 0.04])"
  "loc two_plot_table (treatment 2) = Inr (NDArray [2, 2] [0.07, 0.05, 0.07, 0.05])"
  "loc two_plot_table (treatment 3) = Inr (NDArray [2, 2] [0.065, 0.045, 0.065, 0.045])"
  "loc two_plot_table (control 1) = Inr (NDArray [2, 2] [0.05, 0.04, 0.05, 0.04])"
  "loc two_plot_table (control 2) = Inr (NDArray [2, 2] [0.051, 0.041, 0.051, 0.041])"
  "loc two_plot_table (control 3) = Inr (NDArray [2, 2] [0.0505, 0.0405, 0.0505, 0.0405])"
  by (simp_all add: loc_def two_plot_table_def)

lemmas run_two_plot = run_frames[OF two_plot_slices]

lemmas init_model_two_plot = init_model_frames[OF two_plot_slices]

lemma synthetic_slices:
  "loc synthetic_table (treatment 1) = Inr (NDArray [2] [0.05, 0.04])"
  "loc synthetic_table (treatment 2) = Inr (NDArray [2] [0.07, 0.05])"
  by (simp_all add: loc_def synthetic_table_def)

lemma run_synthetic:
  "run body \<lparr>frame = synthetic_table, graph = [], io = out\<rparr> =
       (Inl ValueError,
        \<lparr>frame = synthetic_table,
         graph = deployment_nodes @ soil_nodes @ enrichment_nodes [2] (NDArray [2] [0.05, 0.04]),
         io = out\<rparr>)"
  by (rule run_series[OF synthetic_slices(1) _ synthetic_slices(2)]) simp_all


lemma body_split:
  "body = (deployment @ take 3 mixing)
     @ (drop 3 mixing @ post_spreading_enrichment @ change_in_control
        @ observed_concentration_loss @ CDR)"
  by (simp add: body_def)

lemma init_model_run:
  assumes "init_model df = Inr g"
  shows "\<exists>s. run body \<lparr>frame = df, graph = [], io = []\<rparr> = (Inr (), s) \<and> graph s = g"
  using assms by (auto simp: init_model_def split: prod.splits sum.splits)

lemma list_all_append_body:
  assumes "body = xs @ ys"
  shows "list_all (\<lambda>st. reads_only (snd st)) xs \<and> list_all (\<lambda>st. reads_only (snd st)) ys"
  using body_reads_only unfolding assms by simp

lemma init_model_prefix:
  assumes "init_model df = Inr g"
  shows "\<exists>ext. g = deployment_nodes @ soil_nodes @ ext \<and>
     map fst ext = map fst (drop 3 mixing @ post_spreading_enrichment @ change_in_control
        @ observed_concentration_loss @ CDR)"
proof -
  let ?rest = "drop 3 mixing @ post_spreading_enrichment @ change_in_control
        @ observed_concentration_loss @ CDR"
  from init_model_run[OF assms] obtain s where
    s: "run body \<lparr>frame = df, graph = [], io = []\<rparr> = (Inr (), s)" and g: "graph s = g"
    by blast
  from s have "run ?rest \<lparr>frame = df, graph = deployment_nodes @ soil_nodes, io = []\<rparr> = (Inr (), s)"
    unfolding body_split run_append_Inr[OF run_first_ten] .
  moreover have "list_all (\<lambda>st. reads_only (snd st)) ?rest"
    using list_all_append_body[OF body_split] by simp
  ultimately show ?thesis using run_extends g by fastforce
qed

lemma rest_names:
  "map fst (drop 3 mixing @ post_spreading_enrichment @ change_in_control
        @ observed_concentration_loss @ CDR) =
   [''mixed concentration'', ''enrichment'', ''enrichment sigma'', ''obs enriched'',
    ''control change'', ''control change sigma'', ''obs control'',
    ''norm loss mu'', ''norm loss sigma'', ''norm loss'', ''concentration loss'',
    ''weathered concentration'', ''weathered sigma'', ''obs weathered'',
    ''CDR potential (per mass)'', ''CDR potential (per area)'', ''CDR (per area)'',
    ''CDR [metric ton CO2]'', ''CDR completion [-]'']"
  by (simp add: mixing_def post_spreading_enrichment_def change_in_control_def
        observed_concentration_loss_def CDR_def)

section \<open>The values of a sample\<close>

text \<open>
  The value of a variable depends on the variables declared before it only: later
  declarations, all under other names, leave it as it is.
\<close>

lemma draw_node_other: "n \<noteq> fst x \<Longrightarrow> draw_node \<sigma> env x n = env n"
  by (cases x; cases "snd x") auto

lemma foldl_draw_other:
  "n \<notin> set (map fst g) \<Longrightarrow> foldl (draw_node \<sigma>) env g n = env n"
  by (induction g arbitrary: env) (auto simp: draw_node_other)

lemma draw_append_other:
  "n \<notin> set (map fst g2) \<Longrightarrow> draw (g1 @ g2) \<sigma> n = draw g1 \<sigma> n"
  by (simp add: draw_def foldl_draw_other)

lemma is_sample_append: "is_sample (g1 @ g2) \<sigma> = (is_sample g1 \<sigma> \<and> is_sample g2 \<sigma>)"
  by (simp add: is_sample_def)

lemma scalar_of_shape:
  "shape a = [] \<Longrightarrow> length (flat a) = 1 \<Longrightarrow> \<exists>x. a = scalar x"
  by (cases a) (auto simp: scalar_def length_Suc_conv)

lemma draw_deployment_values:
  assumes "init_model df = Inr g"
    and "\<sigma> ''feedstock moisture fraction'' = scalar m"
    and "\<sigma> ''wet feedstock mass'' = scalar w"
  shows "draw g \<sigma> ''feedstock moisture fraction'' = Some (scalar m)"
    and "draw g \<sigma> ''wet feedstock mass'' = Some (scalar w)"
    and "draw g \<sigma> ''dry feedstock mass'' = Some (scalar ((1 - m) * w))"
proof -
  from init_model_prefix[OF assms(1)] obtain ext where
    g: "g = (deployment_nodes @ soil_nodes) @ ext" and
    n: "map fst ext = map fst (drop 3 mixing @ post_spreading_enrichment @ change_in_control
        @ observed_concentration_loss @ CDR)"
    by auto
  have 1: "draw g \<sigma> ''feedstock moisture fraction''
      = draw (deployment_nodes @ soil_nodes) \<sigma> ''feedstock moisture fraction''"
    unfolding g by (rule draw_append_other) (simp only: n rest_names, simp)
  have 2: "draw g \<sigma> ''wet feedstock mass''
      = draw (deployment_nodes @ soil_nodes) \<sigma> ''wet feedstock mass''"
    unfolding g by (rule draw_append_other) (simp only: n rest_names, simp)
  have 3: "draw g \<sigma> ''dry feedstock mass''
      = draw (deployment_nodes @ soil_nodes) \<sigma> ''dry feedstock mass''"
    unfolding g by (rule draw_append_other) (simp only: n rest_names, simp)
  show "draw g \<sigma> ''feedstock moisture fraction'' = Some (scalar m)"
    unfolding 1 using assms(2,3)
    by (simp add: draw_def deployment_nodes_def soil_nodes_def scalar_def elementwise_scalars)
  show "draw g \<sigma> ''wet feedstock mass'' = Some (scalar w)"
    unfolding 2 using assms(2,3)
    by (simp add: draw_def deployment_nodes_def soil_nodes_def scalar_def elementwise_scalars)
  show "draw g \<sigma> ''dry feedstock mass'' = Some (scalar ((1 - m) * w))"
    unfolding 3 using assms(2,3)
    by (simp add: draw_def deployment_nodes_def soil_nodes_def scalar_def elementwise_scalars)
qed

lemma sample_scalars:
  assumes "init_model df = Inr g" and "is_sample g \<sigma>"
  shows "\<exists>m w. \<sigma> ''feedstock moisture fraction'' = scalar m \<and> \<sigma> ''wet feedstock mass'' = scalar w"
proof -
  from init_model_prefix[OF assms(1)] obtain ext where
    g: "g = deployment_nodes @ soil_nodes @ ext" by blast
  from assms(2) have "is_sample deployment_nodes \<sigma>"
    unfolding g by (simp add: is_sample_append)
  then have "shape (\<sigma> ''feedstock moisture fraction'') = []"
    "length (flat (\<sigma> ''feedstock moisture fraction'')) = 1"
    "shape (\<sigma> ''wet feedstock mass'') = []"
    "length (flat (\<sigma> ''wet feedstock mass'')) = 1"
    by (simp_all add: is_sample_def deployment_nodes_def)
  then show ?thesis by (meson scalar_of_shape)
qed

lemma mean_sample_is_sample:
  "is_sample
     (deployment_nodes @ soil_nodes
       @ enrichment_nodes s t1 @ obs_enriched oe @ drift_nodes @ obs_control oc
       @ loss_nodes s t2 t3 @ CDR_nodes) mean_sample"
  by (simp add: is_sample_def nodes_defs mean_sample_def mean_draws_def
        sample_of_def scalar_def array_two)


text \<open>
  Claim C4. For every model that \<^verbatim>\<open>init_model\<close> returns and every sample of it, the
  moisture fraction and the wet mass are scalars \<open>m\<close> and \<open>w\<close>, and the value of
  \<^verbatim>\<open>dry feedstock mass\<close> is \<open>(1 - m) * w\<close>, exactly in real arithmetic.
\<close>

theorem dry_feedstock_mass_identity:
  assumes "init_model df = Inr g" and "is_sample g \<sigma>"
  shows "\<exists>m w. draw g \<sigma> ''feedstock moisture fraction'' = Some (scalar m)
     \<and> draw g \<sigma> ''wet feedstock mass'' = Some (scalar w)
     \<and> draw g \<sigma> ''dry feedstock mass'' = Some (scalar ((1 - m) * w))"
proof -
  from sample_scalars[OF assms] obtain m w where
    "\<sigma> ''feedstock moisture fraction'' = scalar m" "\<sigma> ''wet feedstock mass'' = scalar w"
    by blast
  from draw_deployment_values[OF assms(1) this] show ?thesis by blast
qed

text \<open>
  Claim C4, witness: the table of two plots, on which \<^verbatim>\<open>init_model\<close> returns a model, and
  the sample at the prior means.
\<close>

theorem dry_feedstock_mass_identity_witness:
  "\<exists>g m w. init_model two_plot_table = Inr g \<and> is_sample g mean_sample
     \<and> draw g mean_sample ''feedstock moisture fraction'' = Some (scalar m)
     \<and> draw g mean_sample ''wet feedstock mass'' = Some (scalar w)
     \<and> draw g mean_sample ''dry feedstock mass'' = Some (scalar ((1 - m) * w))"
proof -
  obtain g where g: "init_model two_plot_table = Inr g"
    using init_model_two_plot by blast
  have s: "is_sample g mean_sample"
    using g[unfolded init_model_two_plot sum.inject, symmetric] mean_sample_is_sample
    by (simp only:)
  from dry_feedstock_mass_identity[OF g s] g s show ?thesis by blast
qed

section \<open>The values of a sample in floating point\<close>

lemma draw_node_fl_other: "n \<noteq> fst x \<Longrightarrow> draw_node_fl rnd \<sigma> env x n = env n"
  by (cases x; cases "snd x") auto

lemma foldl_draw_fl_other:
  "n \<notin> set (map fst g) \<Longrightarrow> foldl (draw_node_fl rnd \<sigma>) env g n = env n"
  by (induction g arbitrary: env) (auto simp: draw_node_fl_other)

lemma draw_fl_append_other:
  "n \<notin> set (map fst g2) \<Longrightarrow> draw_fl rnd (g1 @ g2) \<sigma> n = draw_fl rnd g1 \<sigma> n"
  by (simp add: draw_fl_def foldl_draw_fl_other)

lemma draw_fl_snoc_Derived:
  "draw_fl rnd (g @ [(n, Derived e s)]) \<sigma> = (draw_fl rnd g \<sigma>)(n := eval_fl rnd (draw_fl rnd g \<sigma>) e)"
  by (simp add: draw_fl_def)

lemma draw_fl_at_Derived:
  assumes "n \<notin> set (map fst g2)"
  shows "draw_fl rnd (g1 @ (n, Derived e s) # g2) \<sigma> n = eval_fl rnd (draw_fl rnd g1 \<sigma>) e"
proof -
  have "draw_fl rnd (g1 @ (n, Derived e s) # g2) \<sigma> n
      = draw_fl rnd ((g1 @ [(n, Derived e s)]) @ g2) \<sigma> n"
    by simp
  also have "\<dots> = draw_fl rnd (g1 @ [(n, Derived e s)]) \<sigma> n"
    using assms by (rule draw_fl_append_other)
  also have "\<dots> = eval_fl rnd (draw_fl rnd g1 \<sigma>) e"
    by (simp add: draw_fl_snoc_Derived)
  finally show ?thesis .
qed

text \<open>With the identity as rounding, the values are those of exact arithmetic.\<close>

lemma foldl_plus: "foldl (\<lambda>acc v. acc + v) (a::real) xs = a + sum_list xs"
  by (induction xs arbitrary: a) simp_all

lemma eval_fl_exact: "eval_fl (\<lambda>x. x) env e = eval_expr env e"
proof (induction e)
  case (Div a b)
  have "divide_fl (\<lambda>x. x) = divide_arrays"
    by (intro ext) (simp add: divide_fl_def divide_arrays_def)
  with Div show ?case by simp
next
  case (Sum a)
  then show ?case by (simp add: foldl_plus)
qed simp_all

lemma draw_node_fl_exact: "draw_node_fl (\<lambda>x. x) \<sigma> env x = draw_node \<sigma> env x"
  by (cases x; cases "snd x") (auto simp: eval_fl_exact)

lemma draw_fl_exact: "draw_fl (\<lambda>x. x) g \<sigma> = draw g \<sigma>"
proof -
  have "draw_node_fl (\<lambda>x. x) \<sigma> = draw_node \<sigma>"
    by (intro ext) (simp add: draw_node_fl_exact)
  then show ?thesis by (simp add: draw_fl_def draw_def)
qed





















section \<open>Properties of the builder: the weathered concentration\<close>

lemma body_weathered:
  "body = (deployment @ mixing @ post_spreading_enrichment @ change_in_control
           @ take 4 observed_concentration_loss)
     @ [(''weathered concentration'',
         then_do (df_loc (treatment 2)) (\<lambda>t2.
           result (Deterministic (Sub (Const t2) (Sub concentration_loss control_change)))))]
     @ (drop 5 observed_concentration_loss @ CDR)"
  by (simp add: body_def observed_concentration_loss_def)

lemma before_weathered_names:
  "map fst (deployment @ mixing @ post_spreading_enrichment @ change_in_control
           @ take 4 observed_concentration_loss) =
   [''wet feedstock mass'', ''treatment area'', ''sample depth'',
    ''feedstock moisture fraction'', ''dry feedstock mass'', ''application rate'',
    ''feedstock concentration'', ''soil density'', ''soil mass'', ''mixing fraction'',
    ''mixed concentration'', ''enrichment'', ''enrichment sigma'', ''obs enriched'',
    ''control change'', ''control change sigma'', ''obs control'',
    ''norm loss mu'', ''norm loss sigma'', ''norm loss'', ''concentration loss'']"
  by (simp add: deployment_def mixing_def post_spreading_enrichment_def change_in_control_def
        observed_concentration_loss_def)

lemma after_weathered_names:
  "map fst (drop 5 observed_concentration_loss @ CDR) =
     [''weathered sigma'', ''obs weathered'', ''CDR potential (per mass)'',
      ''CDR potential (per area)'', ''CDR (per area)'', ''CDR [metric ton CO2]'',
      ''CDR completion [-]'']"
  by (simp add: observed_concentration_loss_def CDR_def)

lemma run_weathered:
  assumes "run [(''weathered concentration'',
         then_do (df_loc (treatment 2)) (\<lambda>t2.
           result (Deterministic (Sub (Const t2) (Sub concentration_loss control_change)))))] s
      = (Inr u, s')"
  shows "\<exists>t2 sh. loc (frame s) (treatment 2) = Inr t2
     \<and> graph s' = graph s @ [(''weathered concentration'',
          Derived (Sub (Const t2) (Sub concentration_loss control_change)) sh)]"
  using assms
  by (auto simp: exec_def then_do_def df_loc_def result_def new_variable_def bind_err_def
        add_named_variable_def split: sum.splits if_splits)

lemma weathered_in_model:
  assumes "init_model df = Inr g"
  shows "\<exists>t2 sh before after. loc df (treatment 2) = Inr t2
     \<and> g = before @ (''weathered concentration'',
            Derived (Sub (Const t2) (Sub concentration_loss control_change)) sh) # after
     \<and> map fst before = map fst (deployment @ mixing @ post_spreading_enrichment
           @ change_in_control @ take 4 observed_concentration_loss)
     \<and> map fst after = map fst (drop 5 observed_concentration_loss @ CDR)"
proof -
  let ?P = "deployment @ mixing @ post_spreading_enrichment @ change_in_control
           @ take 4 observed_concentration_loss"
  let ?W = "[(''weathered concentration'',
         then_do (df_loc (treatment 2)) (\<lambda>t2.
           result (Deterministic (Sub (Const t2) (Sub concentration_loss control_change)))))]"
  let ?Q = "drop 5 observed_concentration_loss @ CDR"
  let ?s0 = "\<lparr>frame = df, graph = [], io = []\<rparr>"
  from init_model_run[OF assms] obtain s where
    s: "run body ?s0 = (Inr (), s)" and g: "graph s = g"
    by blast
  have b: "body = ?P @ (?W @ ?Q)" by (rule body_weathered)
  from s have "run (?P @ (?W @ ?Q)) ?s0 = (Inr (), s)" by (simp only: b[symmetric])
  from run_split[OF this] obtain s1 where
    p: "run ?P ?s0 = (Inr (), s1)" and rest: "run (?W @ ?Q) s1 = (Inr (), s)"
    by blast
  from run_split[OF rest] obtain s2 where
    w: "run ?W s1 = (Inr (), s2)" and q: "run ?Q s2 = (Inr (), s)"
    by blast
  from list_all_append_body[OF b] have roP: "list_all (\<lambda>st. reads_only (snd st)) ?P"
    and "list_all (\<lambda>st. reads_only (snd st)) (?W @ ?Q)"
    by blast+
  then have roQ: "list_all (\<lambda>st. reads_only (snd st)) ?Q" by simp
  from run_effect[OF roP p] have f1: "frame s1 = df" by simp
  from run_extends[OF roP p] obtain before where
    before: "graph s1 = before" "map fst before = map fst ?P"
    by auto
  from run_weathered[OF w] f1 obtain t2 sh where
    t2: "loc df (treatment 2) = Inr t2" and
    g2: "graph s2 = graph s1 @ [(''weathered concentration'',
          Derived (Sub (Const t2) (Sub concentration_loss control_change)) sh)]"
    by auto
  from run_extends[OF roQ q] obtain after where
    after: "graph s = graph s2 @ after" "map fst after = map fst ?Q"
    by blast
  have "g = before @ (''weathered concentration'',
            Derived (Sub (Const t2) (Sub concentration_loss control_change)) sh) # after"
    using g after(1) g2 before(1) by simp
  with t2 before(2) after(2) show ?thesis by blast
qed

text \<open>
  Claim C1, as amended. In every model that \<^verbatim>\<open>init_model\<close> returns, on whatever table, the
  deterministic \<^verbatim>\<open>weathered concentration\<close> is the round-2 treatment slice of the table
  minus (concentration loss minus control change): that is its expression, and for every
  assignment of the latent variables and every rounding its value is that difference,
  computed elementwise, of the slice and the values of the two variables.
\<close>

theorem weathered_concentration_node:
  assumes "init_model df = Inr g"
  shows "\<exists>t2 sh. loc df (treatment 2) = Inr t2
     \<and> map_of g ''weathered concentration'' =
         Some (Derived (Sub (Const t2) (Sub concentration_loss control_change)) sh)
     \<and> (\<forall>rnd \<sigma>. draw_fl rnd g \<sigma> ''weathered concentration'' =
           lift2 (elementwise (\<lambda>p q. rnd (p - q))) (Some t2)
             (lift2 (elementwise (\<lambda>p q. rnd (p - q)))
                (draw_fl rnd g \<sigma> ''concentration loss'')
                (draw_fl rnd g \<sigma> ''control change'')))"
proof -
  from weathered_in_model[OF assms] obtain t2 sh before after where
    t2: "loc df (treatment 2) = Inr t2" and
    g: "g = before @ (''weathered concentration'',
            Derived (Sub (Const t2) (Sub concentration_loss control_change)) sh) # after" and
    nb: "map fst before = map fst (deployment @ mixing @ post_spreading_enrichment
           @ change_in_control @ take 4 observed_concentration_loss)" and
    na: "map fst after = map fst (drop 5 observed_concentration_loss @ CDR)"
    by blast
  let ?e = "Sub (Const t2) (Sub concentration_loss control_change)"
  have "''weathered concentration'' \<notin> set (map fst before)"
    by (simp only: nb before_weathered_names, simp)
  then have "map_of before ''weathered concentration'' = None"
    by (simp add: map_of_eq_None_iff)
  then have m: "map_of g ''weathered concentration'' = Some (Derived ?e sh)"
    unfolding g by (simp add: map_add_def)
  have names: "map fst ((''weathered concentration'', Derived ?e sh) # after) =
      ''weathered concentration'' # map fst (drop 5 observed_concentration_loss @ CDR)"
    by (simp only: list.map fst_conv na)
  have d: "draw_fl rnd g \<sigma> ''weathered concentration'' =
           lift2 (elementwise (\<lambda>p q. rnd (p - q))) (Some t2)
             (lift2 (elementwise (\<lambda>p q. rnd (p - q)))
                (draw_fl rnd g \<sigma> ''concentration loss'')
                (draw_fl rnd g \<sigma> ''control change''))" for rnd \<sigma>
  proof -
    have w: "draw_fl rnd g \<sigma> ''weathered concentration'' = eval_fl rnd (draw_fl rnd before \<sigma>) ?e"
      unfolding g by (rule draw_fl_at_Derived) (simp only: na after_weathered_names, simp)
    have l: "draw_fl rnd g \<sigma> ''concentration loss'' = draw_fl rnd before \<sigma> ''concentration loss''"
      unfolding g by (rule draw_fl_append_other) (simp only: names after_weathered_names, simp)
    have c: "draw_fl rnd g \<sigma> ''control change'' = draw_fl rnd before \<sigma> ''control change''"
      unfolding g by (rule draw_fl_append_other) (simp only: names after_weathered_names, simp)
    show ?thesis by (simp add: w l c)
  qed
  from t2 m d show ?thesis by blast
qed

text \<open>
  Claim C1, witness: the table of two plots, on which \<^verbatim>\<open>init_model\<close> returns a model; the
  round-2 treatment slice is [[0.07, 0.05], [0.07, 0.05]].
\<close>

theorem weathered_concentration_node_witness:
  "\<exists>g t2 sh. init_model two_plot_table = Inr g
     \<and> loc two_plot_table (treatment 2) = Inr t2
     \<and> t2 = NDArray [2, 2] [0.07, 0.05, 0.07, 0.05]
     \<and> map_of g ''weathered concentration'' =
         Some (Derived (Sub (Const t2) (Sub concentration_loss control_change)) sh)"
proof -
  obtain g where g: "init_model two_plot_table = Inr g"
    using init_model_two_plot by blast
  from weathered_concentration_node[OF g] obtain t2 sh where
    t2: "loc two_plot_table (treatment 2) = Inr t2" and
    m: "map_of g ''weathered concentration'' =
         Some (Derived (Sub (Const t2) (Sub concentration_loss control_change)) sh)"
    by blast
  from t2 have "t2 = NDArray [2, 2] [0.07, 0.05, 0.07, 0.05]"
    by (simp add: two_plot_slices(2))
  with g t2 m show ?thesis by blast
qed

lemmas draw_simps =
  draw_fl_def nodes_defs scalar_def array_two divide_fl_def sample_of_def elementwise_simps

text \<open>
  Claim C1, counterexample to the claim as stated: on the table of two plots and the
  sample at the prior means, in exact arithmetic, the value of \<^verbatim>\<open>weathered concentration\<close>
  is not the round-3 treatment slice minus (concentration loss minus control change).
\<close>

theorem weathered_concentration_not_round_3:
  "loc two_plot_table (treatment 3) = Inr (NDArray [2, 2] [0.065, 0.045, 0.065, 0.045]) \<and>
   (case init_model two_plot_table of
      Inl e \<Rightarrow> False
    | Inr g \<Rightarrow>
        is_sample g mean_sample \<and>
        draw_fl (\<lambda>x. x) g mean_sample ''weathered concentration''
          = Some (NDArray [2, 2] [0.07 - 7 / 20700, 0.05 - 7 / 41400,
                                  0.07 - 7 / 20700, 0.05 - 7 / 41400]) \<and>
        lift2 (elementwise (-)) (Some (NDArray [2, 2] [0.065, 0.045, 0.065, 0.045]))
          (lift2 (elementwise (-)) (draw_fl (\<lambda>x. x) g mean_sample ''concentration loss'')
             (draw_fl (\<lambda>x. x) g mean_sample ''control change''))
          = Some (NDArray [2, 2] [0.065 - 7 / 20700, 0.045 - 7 / 41400,
                                  0.065 - 7 / 20700, 0.045 - 7 / 41400]))"
  by (simp add: two_plot_slices init_model_two_plot draw_simps is_sample_def
        mean_sample_def mean_draws_def)

section \<open>Properties of the builder: the run\<close>

lemma two_plot_graph_names:
  "map fst (deployment_nodes @ soil_nodes @ enrichment_nodes s t1 @ obs_enriched oe
       @ drift_nodes @ obs_control oc @ loss_nodes s t2 t3 @ CDR_nodes) =
        [''wet feedstock mass'', ''treatment area'', ''sample depth'',
         ''feedstock moisture fraction'', ''dry feedstock mass'', ''application rate'',
         ''feedstock concentration'', ''soil density'', ''soil mass'', ''mixing fraction'',
         ''mixed concentration'', ''enrichment'', ''enrichment sigma'', ''obs enriched'',
         ''control change'', ''control change sigma'', ''obs control'',
         ''norm loss mu'', ''norm loss sigma'', ''norm loss'', ''concentration loss'',
         ''weathered concentration'', ''weathered sigma'', ''obs weathered'',
         ''CDR potential (per mass)'', ''CDR potential (per area)'', ''CDR (per area)'',
         ''CDR [metric ton CO2]'', ''CDR completion [-]'']"
  by (simp add: nodes_defs)

text \<open>
  Claim C2, as amended. On the synthetic table, whose slices are single rows, the run of
  the block stops with ValueError at the declaration of \<^verbatim>\<open>obs enriched\<close>: its data, the
  round-2 minus the round-1 treatment row, are the one-dimensional array [0.02, 0.01],
  and the parameter \<^verbatim>\<open>enrichment sigma\<close> has the shape (1, 2). Thirteen variables are
  declared by then, no observation among them, and \<^verbatim>\<open>init_model\<close> returns no model. On the
  table with the same rows for two plots of each type, \<^verbatim>\<open>init_model\<close> succeeds and returns
  a model of exactly 29 named variables, the names as listed and distinct, in which
  \<^verbatim>\<open>obs enriched\<close> is an observation bound to the array [[0.02, 0.01], [0.02, 0.01]].
\<close>

theorem synthetic_table_build:
  "init_model synthetic_table = Inl ValueError
   \<and> run body \<lparr>frame = synthetic_table, graph = [], io = []\<rparr> =
       (Inl ValueError,
        \<lparr>frame = synthetic_table,
         graph = deployment_nodes @ soil_nodes @ enrichment_nodes [2] (NDArray [2] [0.05, 0.04]),
         io = []\<rparr>)
   \<and> length (deployment_nodes @ soil_nodes @ enrichment_nodes [2] (NDArray [2] [0.05, 0.04])) = 13
   \<and> filter (\<lambda>x. is_observation (snd x))
        (deployment_nodes @ soil_nodes @ enrichment_nodes [2] (NDArray [2] [0.05, 0.04])) = []
   \<and> loc synthetic_table (treatment 2) = Inr (NDArray [2] [0.07, 0.05])
   \<and> loc synthetic_table (treatment 1) = Inr (NDArray [2] [0.05, 0.04])
   \<and> np_op (-) (NDArray [2] [0.07, 0.05]) (NDArray [2] [0.05, 0.04]) = Inr (NDArray [2] [0.02, 0.01])
   \<and> (\<exists>g. init_model two_plot_table = Inr g
        \<and> length g = 29
        \<and> distinct (map fst g)
        \<and> map fst g =
          [''wet feedstock mass'', ''treatment area'', ''sample depth'',
           ''feedstock moisture fraction'', ''dry feedstock mass'', ''application rate'',
           ''feedstock concentration'', ''soil density'', ''soil mass'', ''mixing fraction'',
           ''mixed concentration'', ''enrichment'', ''enrichment sigma'', ''obs enriched'',
           ''control change'', ''control change sigma'', ''obs control'',
           ''norm loss mu'', ''norm loss sigma'', ''norm loss'', ''concentration loss'',
           ''weathered concentration'', ''weathered sigma'', ''obs weathered'',
           ''CDR potential (per mass)'', ''CDR potential (per area)'', ''CDR (per area)'',
           ''CDR [metric ton CO2]'', ''CDR completion [-]'']
        \<and> map_of g ''obs enriched'' =
            Some (Observed (Normal enrichment enrichment_sigma)
                    (NDArray [2, 2] [0.02, 0.01, 0.02, 0.01])))"
proof -
  have 1: "init_model synthetic_table = Inl ValueError"
    by (simp add: init_model_def run_synthetic)
  have 2: "length (deployment_nodes @ soil_nodes @ enrichment_nodes [2] (NDArray [2] [0.05, 0.04])) = 13"
    by (simp add: nodes_defs)
  have 3: "filter (\<lambda>x. is_observation (snd x))
        (deployment_nodes @ soil_nodes @ enrichment_nodes [2] (NDArray [2] [0.05, 0.04])) = []"
    by (simp add: nodes_defs)
  have 4: "np_op (-) (NDArray [2] [0.07, 0.05]) (NDArray [2] [0.05, 0.04]) = Inr (NDArray [2] [0.02, 0.01])"
    by (simp add: np_op_def elementwise_vectors)
  let ?g = "deployment_nodes @ soil_nodes
       @ enrichment_nodes [2, 2] (NDArray [2, 2] [0.05, 0.04, 0.05, 0.04])
       @ obs_enriched (NDArray [2, 2] [0.07 - 0.05, 0.05 - 0.04, 0.07 - 0.05, 0.05 - 0.04])
       @ drift_nodes
       @ obs_control (NDArray [2, 2]
           [0.0505 - (0.05 / 2 + 0.051 / 2), 0.0405 - (0.04 / 2 + 0.041 / 2),
            0.0505 - (0.05 / 2 + 0.051 / 2), 0.0405 - (0.04 / 2 + 0.041 / 2)])
       @ loss_nodes [2, 2] (NDArray [2, 2] [0.07, 0.05, 0.07, 0.05])
           (NDArray [2, 2] [0.065, 0.045, 0.065, 0.045])
       @ CDR_nodes"
  have n: "map fst ?g =
          [''wet feedstock mass'', ''treatment area'', ''sample depth'',
           ''feedstock moisture fraction'', ''dry feedstock mass'', ''application rate'',
           ''feedstock concentration'', ''soil density'', ''soil mass'', ''mixing fraction'',
           ''mixed concentration'', ''enrichment'', ''enrichment sigma'', ''obs enriched'',
           ''control change'', ''control change sigma'', ''obs control'',
           ''norm loss mu'', ''norm loss sigma'', ''norm loss'', ''concentration loss'',
           ''weathered concentration'', ''weathered sigma'', ''obs weathered'',
           ''CDR potential (per mass)'', ''CDR potential (per area)'', ''CDR (per area)'',
           ''CDR [metric ton CO2]'', ''CDR completion [-]'']"
    by (rule two_plot_graph_names)
  have l: "length ?g = 29" using arg_cong[OF n, of length] by simp
  have d: "distinct (map fst ?g)" unfolding n by simp
  have o: "map_of ?g ''obs enriched'' =
            Some (Observed (Normal enrichment enrichment_sigma)
                    (NDArray [2, 2] [0.02, 0.01, 0.02, 0.01]))"
    by (simp add: nodes_defs)
  have 5: "\<exists>g. init_model two_plot_table = Inr g
        \<and> length g = 29
        \<and> distinct (map fst g)
        \<and> map fst g =
          [''wet feedstock mass'', ''treatment area'', ''sample depth'',
           ''feedstock moisture fraction'', ''dry feedstock mass'', ''application rate'',
           ''feedstock concentration'', ''soil density'', ''soil mass'', ''mixing fraction'',
           ''mixed concentration'', ''enrichment'', ''enrichment sigma'', ''obs enriched'',
           ''control change'', ''control change sigma'', ''obs control'',
           ''norm loss mu'', ''norm loss sigma'', ''norm loss'', ''concentration loss'',
           ''weathered concentration'', ''weathered sigma'', ''obs weathered'',
           ''CDR potential (per mass)'', ''CDR potential (per area)'', ''CDR (per area)'',
           ''CDR [metric ton CO2]'', ''CDR completion [-]'']
        \<and> map_of g ''obs enriched'' =
            Some (Observed (Normal enrichment enrichment_sigma)
                    (NDArray [2, 2] [0.02, 0.01, 0.02, 0.01]))"
    using init_model_two_plot l d n o by (intro exI[of _ ?g] conjI)
  from 1 run_synthetic[of "[]"] 2 3 synthetic_slices(2) synthetic_slices(1) 4 5
  show ?thesis by (intro conjI)
qed

text \<open>
  Claim C2, counterexample to the claim as stated: on the synthetic table \<^verbatim>\<open>init_model\<close>
  raises ValueError and returns no model.
\<close>

theorem synthetic_table_no_model:
  "init_model synthetic_table = Inl ValueError"
  by (simp add: init_model_def run_synthetic)



text \<open>
  Claim C8. For every table, and however the run of the block ends, normally or with an
  exception, the run leaves the frame as it was and writes nothing: the final state
  differs from the initial one in the model only, and what \<^verbatim>\<open>init_model\<close> gives its caller is
  the model of the final state, or the exception.
\<close>

theorem init_model_leaves_frame:
  assumes "run body \<lparr>frame = df, graph = [], io = []\<rparr> = (r, s)"
  shows "frame s = df \<and> io s = []
     \<and> init_model df = (case r of Inl e \<Rightarrow> Inl e | Inr u \<Rightarrow> Inr (graph s))"
proof -
  from run_effect[OF body_reads_only assms] have "frame s = df \<and> io s = []" by simp
  moreover have "init_model df = (case r of Inl e \<Rightarrow> Inl e | Inr u \<Rightarrow> Inr (graph s))"
    by (simp add: init_model_def assms split: sum.splits)
  ultimately show ?thesis by blast
qed

text \<open>
  Claim C8, witness: the run on the table of two plots, which ends normally, and the run
  on the synthetic table, which ends with an exception.
\<close>

theorem init_model_leaves_frame_witness:
  "(\<exists>s. run body \<lparr>frame = two_plot_table, graph = [], io = []\<rparr> = (Inr (), s)
       \<and> frame s = two_plot_table \<and> io s = [] \<and> init_model two_plot_table = Inr (graph s))
   \<and> (\<exists>s. run body \<lparr>frame = synthetic_table, graph = [], io = []\<rparr> = (Inl ValueError, s)
       \<and> frame s = synthetic_table \<and> io s = [] \<and> init_model synthetic_table = Inl ValueError)"
proof -
  obtain s1 where s1: "run body \<lparr>frame = two_plot_table, graph = [], io = []\<rparr> = (Inr (), s1)"
    using run_two_plot[of "[]"] by blast
  from init_model_leaves_frame[OF s1]
  have "frame s1 = two_plot_table \<and> io s1 = [] \<and> init_model two_plot_table = Inr (graph s1)"
    by simp
  with s1 have 1: "\<exists>s. run body \<lparr>frame = two_plot_table, graph = [], io = []\<rparr> = (Inr (), s)
       \<and> frame s = two_plot_table \<and> io s = [] \<and> init_model two_plot_table = Inr (graph s)"
    by blast
  obtain s2 where s2: "run body \<lparr>frame = synthetic_table, graph = [], io = []\<rparr> = (Inl ValueError, s2)"
    using run_synthetic[of "[]"] by blast
  from init_model_leaves_frame[OF s2]
  have "frame s2 = synthetic_table \<and> io s2 = [] \<and> init_model synthetic_table = Inl ValueError"
    by simp
  with s2 have 2: "\<exists>s. run body \<lparr>frame = synthetic_table, graph = [], io = []\<rparr> = (Inl ValueError, s)
       \<and> frame s = synthetic_table \<and> io s = [] \<and> init_model synthetic_table = Inl ValueError"
    by blast
  from 1 2 show ?thesis by (rule conjI)
qed

end
